theory Spec2Isabelle
  imports Main "HOL-Library.Extended_Nat"
begin

section \<open>The outbox of the container runtime (opLifecycle/outbox.ts)\<close>

text \<open>
  The Outbox accumulates local ops in two batch managers (attach flow and main), and at
  a flush point pops a batch, compresses it, sends it to the container context and records
  every op of the raw batch with the pending state manager.

  Modelling decisions.
  \<^item> Byte sizes are natural numbers; limits and thresholds are \<open>enat\<close>, because the
    source uses \<open>Infinity\<close> both as "compression disabled"
    (\<open>minimumBatchSizeInBytes\<close>) and as "no limit".
  \<^item> An exception is a value: every operation returns the error (if any) together with
    the state reached when it was thrown, since a JavaScript throw does not undo the
    mutations made before it.
  \<^item> An op's \<open>metadata\<close> is a reference to an object. The legacy send path deletes a
    property of that object in place, and the same object may be reachable from the raw
    batch and from the compressed batch, so metadata objects live in an explicit heap.
  \<^item> Calls to the collaborators (compressor, splitter, container context, pending state
    manager) are recorded in one trace, in the order in which they are made. A call that
    receives a metadata reference records the reference together with the object as it
    is at the time of the call.
  \<^item> The compressor and the splitter are parameters: functions from batch to batch that
    leave their argument alone.
\<close>

subsection \<open>JavaScript values and metadata objects\<close>

datatype jsvalue = JUndefined | JNull | JBool bool | JNum int | JStr string

text \<open>Truthiness, as tested by \<open>if (message.metadata?.compressed)\<close>.\<close>

fun truthy :: "jsvalue \<Rightarrow> bool" where
  "truthy JUndefined = False"
| "truthy JNull = False"
| "truthy (JBool b) = b"
| "truthy (JNum n) = (n \<noteq> 0)"
| "truthy (JStr s) = (s \<noteq> [])"

text \<open>A metadata object (\<open>Record<string, unknown>\<close>): its own properties, in order.\<close>

type_synonym metadata_obj = "(string \<times> jsvalue) list"

type_synonym addr = nat

text \<open>\<open>obj[k]\<close>: a missing property reads as \<open>undefined\<close>.\<close>

definition get_prop :: "metadata_obj \<Rightarrow> string \<Rightarrow> jsvalue" where
  "get_prop obj k = (case map_of obj k of None \<Rightarrow> JUndefined | Some v \<Rightarrow> v)"

text \<open>\<open>k in obj\<close>.\<close>

definition has_prop :: "metadata_obj \<Rightarrow> string \<Rightarrow> bool" where
  "has_prop obj k = (k \<in> set (map fst obj))"

text \<open>\<open>delete obj[k]\<close>.\<close>

definition delete_prop :: "string \<Rightarrow> metadata_obj \<Rightarrow> metadata_obj" where
  "delete_prop k obj = filter (\<lambda>kv. fst kv \<noteq> k) obj"

subsection \<open>Messages and batches\<close>

text \<open>
  The declarations of \<open>BatchMessage\<close> and \<open>IBatch\<close> (definitions.ts) are not among
  the sources; the records have the fields that the outbox reads. Strings are lists of
  characters, and the size of an op is the length of its \<open>contents\<close>.
\<close>

record ContainerRuntimeMessage =
  dc_type :: string
  dc_contents :: jsvalue

record BatchMessage =
  contents :: "string option"
  metadata :: "addr option"
  compression :: "string option"
  localOpMetadata :: jsvalue
  deserializedContent :: ContainerRuntimeMessage
  referenceSequenceNumber :: int

record IBatch =
  content :: "BatchMessage list"
  contentSizeInBytes :: nat

text \<open>\<open>message.contents?.length ?? 0\<close>\<close>

definition opSize :: "BatchMessage \<Rightarrow> nat" where
  "opSize message = (case contents message of None \<Rightarrow> 0 | Some c \<Rightarrow> length c)"

subsection \<open>Errors\<close>

record ICompressionRuntimeOptions =
  minimumBatchSizeInBytes :: enat
  compressionAlgorithm :: string

text \<open>
  The properties attached to a \<open>GenericError\<close>. \<open>PStringify v\<close> stands for the string
  \<open>JSON.stringify(v)\<close>.
\<close>

datatype propval =
    PNum enat
  | PBool bool
  | PStringify "ICompressionRuntimeOptions option"

datatype error =
    GenericError string "(string \<times> propval) list"
  | TypeError

subsection \<open>BatchManager\<close>

text \<open>
  batchManager.ts is not among the sources; the outbox shows its interface: the options
  object passed to the constructor, \<open>push\<close>, \<open>popBatch\<close>, \<open>length\<close>,
  \<open>contentSizeInBytes\<close> and \<open>options\<close>. The options are those the constructor of the
  outbox passes; the main batch manager is created without a \<open>softLimit\<close>.
\<close>

record IBatchManagerOptions =
  hardLimit :: enat
  softLimit :: "enat option"
  enableOpReentryCheck :: "bool option"

text \<open>
  Modelled from the spec: the state of a batch manager, which batchManager.ts (not among
  the sources) holds. Section 3 of the specification: the current pending batch, in
  order, and the limits.
\<close>

record BatchManager =
  pendingBatch :: "BatchMessage list"
  options :: IBatchManagerOptions

text \<open>
  Modelled from the spec: the constructor of batchManager.ts, which is not among the
  sources. A manager is created once, empty, with fixed limits (section 3).
\<close>

definition BatchManager_new :: "IBatchManagerOptions \<Rightarrow> BatchManager" where
  "BatchManager_new opts = \<lparr>pendingBatch = [], options = opts\<rparr>"

text \<open>
  Modelled from the spec: the getter \<open>length\<close> of batchManager.ts, which is not among
  the sources: the number of pending ops.
\<close>

definition bm_length :: "BatchManager \<Rightarrow> nat" where
  "bm_length bm = length (pendingBatch bm)"

text \<open>
  Modelled from the spec: the getter \<open>contentSizeInBytes\<close> of batchManager.ts, which is
  not among the sources. Section 3: it always equals the sum of the sizes of the
  constituent ops, and the size of an op is the size of its \<open>contents\<close>.
\<close>

definition bm_contentSizeInBytes :: "BatchManager \<Rightarrow> nat" where
  "bm_contentSizeInBytes bm = sum_list (map opSize (pendingBatch bm))"

text \<open>
  Modelled from the spec: \<open>push\<close> of batchManager.ts, which is not among the sources.
  Section 4.1: it fails (returns false, no mutation) iff adding the op would exceed
  \<open>hardLimit\<close>, the soft limit is no failure condition, and success appends the op. The
  reentrancy check has no effect here, since no callback of this model submits an op.
  The properties of the outbox below use two facts about \<open>push\<close>: a failed push leaves
  the manager as it is, and a push can fail only under a finite limit.
\<close>

definition push :: "BatchManager \<Rightarrow> BatchMessage \<Rightarrow> bool \<times> BatchManager" where
  "push bm message =
     (if hardLimit (options bm) < enat (bm_contentSizeInBytes bm + opSize message)
      then (False, bm)
      else (True, bm\<lparr>pendingBatch := pendingBatch bm @ [message]\<rparr>))"

text \<open>
  Modelled from the spec: \<open>popBatch\<close> of batchManager.ts, which is not among the sources.
  Section 4.1: it removes and returns the entire accumulated batch and resets the manager
  to empty; on an empty manager it returns an empty batch.
\<close>

definition popBatch :: "BatchManager \<Rightarrow> IBatch \<times> BatchManager" where
  "popBatch bm =
     (\<lparr>content = pendingBatch bm, contentSizeInBytes = bm_contentSizeInBytes bm\<rparr>,
      bm\<lparr>pendingBatch := []\<rparr>)"

subsection \<open>The outbox, its parameters and its environment\<close>

type_synonym seen_metadata = "(addr \<times> metadata_obj) option"

text \<open>One element of the array handed to \<open>submitBatchFn\<close>.\<close>

record IBatchMessage =
  bm_contents :: "string option"
  bm_metadata :: seen_metadata
  bm_compression :: "string option"

datatype call =
    CompressBatch IBatch
  | SplitCompressedBatch IBatch
  | SubmitBatchFn "IBatchMessage list"
  | SubmitFn string ContainerRuntimeMessage bool seen_metadata
  | DeltaManagerFlush
  | OnSubmitMessage string int jsvalue jsvalue seen_metadata

record outbox_state =
  attachFlowBatch :: BatchManager
  mainBatch :: BatchManager
  heap :: "addr \<Rightarrow> metadata_obj"
  trace :: "call list"

record IOutboxConfig =
  compressionOptions :: "ICompressionRuntimeOptions option"
  maxBatchSizeInBytes :: enat
  cfg_enableOpReentryCheck :: "bool option"

record OpSplitter =
  isBatchChunkingEnabled :: bool
  splitCompressedBatch :: "IBatch \<Rightarrow> IBatch"

text \<open>
  \<open>shouldSend\<close> is a callback of the host; it may answer differently at different
  moments, so it reads the state. \<open>submitBatchFn_defined\<close> tells whether the container
  context has a \<open>submitBatchFn\<close>.
\<close>

record IOutboxParameters =
  shouldSend :: "outbox_state \<Rightarrow> bool"
  config :: IOutboxConfig
  compressor :: "IBatch \<Rightarrow> IBatch"
  splitter :: OpSplitter
  submitBatchFn_defined :: bool

definition defaultAttachFlowSoftLimitInBytes :: nat where
  "defaultAttachFlowSoftLimitInBytes = 64 * 1024"

text \<open>\<open>MessageType.Operation\<close>\<close>

definition MessageType_Operation :: string where
  "MessageType_Operation = ''op''"

text \<open>What a callee that receives the reference \<open>r\<close> sees in the heap \<open>h\<close>.\<close>

definition seen :: "(addr \<Rightarrow> metadata_obj) \<Rightarrow> addr option \<Rightarrow> seen_metadata" where
  "seen h r = (case r of None \<Rightarrow> None | Some a \<Rightarrow> Some (a, h a))"

definition record_call :: "call \<Rightarrow> outbox_state \<Rightarrow> outbox_state" where
  "record_call c s = s\<lparr>trace := trace s @ [c]\<rparr>"

text \<open>
  \<open>isCompressionEnabled\<close> of the constructor:
  \<open>minimumBatchSizeInBytes !== Number.POSITIVE_INFINITY\<close>.
\<close>

definition isCompressionEnabled :: "ICompressionRuntimeOptions \<Rightarrow> bool" where
  "isCompressionEnabled co = (minimumBatchSizeInBytes co \<noteq> \<infinity>)"

text \<open>
  The constructor. It reads \<open>compressionOptions.minimumBatchSizeInBytes\<close> without a
  test, which throws a \<open>TypeError\<close> when the options are undefined. The heap and the
  trace are those of the environment in which the outbox is created.
\<close>

definition Outbox_new ::
  "IOutboxParameters \<Rightarrow> (addr \<Rightarrow> metadata_obj) \<Rightarrow> call list \<Rightarrow> error + outbox_state" where
  "Outbox_new params h t =
     (case compressionOptions (config params) of
        None \<Rightarrow> Inl TypeError
      | Some co \<Rightarrow>
          (let hardLimit' = (if isCompressionEnabled co then \<infinity>
                             else maxBatchSizeInBytes (config params));
               softLimit' = (if isCompressionEnabled co then \<infinity>
                             else enat defaultAttachFlowSoftLimitInBytes)
           in Inr \<lparr>attachFlowBatch = BatchManager_new
                      \<lparr>hardLimit = hardLimit', softLimit = Some softLimit',
                       enableOpReentryCheck = cfg_enableOpReentryCheck (config params)\<rparr>,
                    mainBatch = BatchManager_new
                      \<lparr>hardLimit = hardLimit', softLimit = None,
                       enableOpReentryCheck = cfg_enableOpReentryCheck (config params)\<rparr>,
                    heap = h, trace = t\<rparr>))"

text \<open>
  The options of a batch manager are fixed at construction (no operation below writes
  them), so in every state of an outbox built from \<open>params\<close> the options of both
  managers are those the constructor computes from \<open>params\<close>.
\<close>

definition constructed :: "IOutboxParameters \<Rightarrow> outbox_state \<Rightarrow> bool" where
  "constructed params s =
     (case Outbox_new params (heap s) (trace s) of
        Inl e \<Rightarrow> False
      | Inr s0 \<Rightarrow>
          options (attachFlowBatch s) = options (attachFlowBatch s0) \<and>
          options (mainBatch s) = options (mainBatch s0))"

definition isEmpty :: "outbox_state \<Rightarrow> bool" where
  "isEmpty s = (bm_length (attachFlowBatch s) = 0 \<and> bm_length (mainBatch s) = 0)"

text \<open>\<open>this.attachFlowBatch.popBatch()\<close> and \<open>this.mainBatch.popBatch()\<close>\<close>

definition popAttachFlowBatch :: "outbox_state \<Rightarrow> IBatch \<times> outbox_state" where
  "popAttachFlowBatch s =
     (case popBatch (attachFlowBatch s) of (batch, bm) \<Rightarrow> (batch, s\<lparr>attachFlowBatch := bm\<rparr>))"

definition popMainBatch :: "outbox_state \<Rightarrow> IBatch \<times> outbox_state" where
  "popMainBatch s =
     (case popBatch (mainBatch s) of (batch, bm) \<Rightarrow> (batch, s\<lparr>mainBatch := bm\<rparr>))"

subsection \<open>compressBatch\<close>

definition compressBatch ::
  "IOutboxParameters \<Rightarrow> IBatch \<Rightarrow> outbox_state \<Rightarrow> (error + IBatch) \<times> outbox_state" where
  "compressBatch params batch s =
     (if content batch = [] \<or>
         (case compressionOptions (config params) of
            None \<Rightarrow> True
          | Some co \<Rightarrow> enat (contentSizeInBytes batch) < minimumBatchSizeInBytes co)
      then (Inr batch, s)
      else
        (let compressedBatch = compressor params batch;
             s1 = record_call (CompressBatch batch) s
         in if enat (contentSizeInBytes compressedBatch) \<le> maxBatchSizeInBytes (config params)
            then (Inr compressedBatch, s1)
            else if isBatchChunkingEnabled (splitter params)
            then (Inr (splitCompressedBatch (splitter params) compressedBatch),
                  record_call (SplitCompressedBatch compressedBatch) s1)
            else (Inl (GenericError ''BatchTooLarge''
                    [(''batchSize'', PNum (enat (contentSizeInBytes batch))),
                     (''compressedBatchSize'', PNum (enat (contentSizeInBytes compressedBatch))),
                     (''count'', PNum (enat (length (content compressedBatch)))),
                     (''limit'', PNum (maxBatchSizeInBytes (config params))),
                     (''chunkingEnabled'', PBool (isBatchChunkingEnabled (splitter params))),
                     (''compressionOptions'',
                        PStringify (compressionOptions (config params)))]),
                  s1)))"

subsection \<open>sendBatch\<close>

text \<open>
  The body of the legacy loop before the call:
  \<open>if (message.metadata?.compressed) { delete message.metadata.compressed; }\<close>,
  first on the object, then on the heap that holds it.
\<close>

definition stripCompressedFlag :: "metadata_obj \<Rightarrow> metadata_obj" where
  "stripCompressedFlag obj =
     (if truthy (get_prop obj ''compressed'') then delete_prop ''compressed'' obj else obj)"

definition stripCompressed :: "BatchMessage \<Rightarrow> (addr \<Rightarrow> metadata_obj) \<Rightarrow> (addr \<Rightarrow> metadata_obj)" where
  "stripCompressed message h =
     (case metadata message of
        None \<Rightarrow> h
      | Some a \<Rightarrow> h(a := stripCompressedFlag (h a)))"

fun submitLegacy :: "BatchMessage list \<Rightarrow> outbox_state \<Rightarrow> outbox_state" where
  "submitLegacy [] s = s"
| "submitLegacy (message # rest) s =
     (let s1 = s\<lparr>heap := stripCompressed message (heap s)\<rparr>;
          s2 = record_call
                 (SubmitFn MessageType_Operation (deserializedContent message) True
                    (seen (heap s1) (metadata message))) s1
      in submitLegacy rest s2)"

text \<open>
  The element that \<open>batch.content.map\<close> builds for \<open>submitBatchFn\<close>:
  \<open>{ contents, metadata, compression }\<close> of the message.
\<close>

definition toIBatchMessage :: "(addr \<Rightarrow> metadata_obj) \<Rightarrow> BatchMessage \<Rightarrow> IBatchMessage" where
  "toIBatchMessage h message =
     \<lparr>bm_contents = contents message,
      bm_metadata = seen h (metadata message),
      bm_compression = compression message\<rparr>"

definition sendBatch :: "IOutboxParameters \<Rightarrow> IBatch \<Rightarrow> outbox_state \<Rightarrow> outbox_state" where
  "sendBatch params batch s =
     (if length (content batch) = 0 \<or> \<not> shouldSend params s then s
      else if \<not> submitBatchFn_defined params
      then record_call DeltaManagerFlush (submitLegacy (content batch) s)
      else record_call (SubmitBatchFn (map (toIBatchMessage (heap s)) (content batch))) s)"

subsection \<open>persistBatch\<close>

text \<open>
  The call \<open>pendingStateManager.onSubmitMessage(type, referenceSequenceNumber, contents,
  localOpMetadata, metadata)\<close> made for one message, in the heap \<open>h\<close>.
\<close>

definition onSubmitMessage :: "(addr \<Rightarrow> metadata_obj) \<Rightarrow> BatchMessage \<Rightarrow> call" where
  "onSubmitMessage h message =
     OnSubmitMessage (dc_type (deserializedContent message))
       (referenceSequenceNumber message)
       (dc_contents (deserializedContent message))
       (localOpMetadata message)
       (seen h (metadata message))"

fun persistBatch :: "BatchMessage list \<Rightarrow> outbox_state \<Rightarrow> outbox_state" where
  "persistBatch [] s = s"
| "persistBatch (message # rest) s =
     persistBatch rest (record_call (onSubmitMessage (heap s) message) s)"

subsection \<open>flushInternal, flush, submit, submitAttach\<close>

definition flushInternal ::
  "IOutboxParameters \<Rightarrow> IBatch \<Rightarrow> outbox_state \<Rightarrow> error option \<times> outbox_state" where
  "flushInternal params rawBatch s =
     (case compressBatch params rawBatch s of
        (Inl e, s1) \<Rightarrow> (Some e, s1)
      | (Inr processedBatch, s1) \<Rightarrow>
          (None, persistBatch (content rawBatch) (sendBatch params processedBatch s1)))"

definition flush :: "IOutboxParameters \<Rightarrow> outbox_state \<Rightarrow> error option \<times> outbox_state" where
  "flush params s =
     (case popAttachFlowBatch s of
        (attachBatch, s1) \<Rightarrow>
          (case flushInternal params attachBatch s1 of
             (Some e, s2) \<Rightarrow> (Some e, s2)
           | (None, s2) \<Rightarrow>
               (case popMainBatch s2 of
                  (mainBatch', s3) \<Rightarrow> flushInternal params mainBatch' s3)))"

definition submit ::
  "IOutboxParameters \<Rightarrow> BatchMessage \<Rightarrow> outbox_state \<Rightarrow> error option \<times> outbox_state" where
  "submit params message s =
     (case push (mainBatch s) message of
        (ok, bm) \<Rightarrow>
          (let s1 = s\<lparr>mainBatch := bm\<rparr>
           in if \<not> ok
              then (Some (GenericError ''BatchTooLarge''
                      [(''opSize'', PNum (enat (opSize message))),
                       (''batchSize'', PNum (enat (bm_contentSizeInBytes (mainBatch s1)))),
                       (''count'', PNum (enat (bm_length (mainBatch s1)))),
                       (''limit'', PNum (hardLimit (options (mainBatch s1))))]),
                    s1)
              else (None, s1)))"

text \<open>
  The tail of \<open>submitAttach\<close>: the eager flush once the attach batch has reached the
  compression threshold. Reading the threshold of undefined options throws.
\<close>

definition flushAttachIfLarge ::
  "IOutboxParameters \<Rightarrow> outbox_state \<Rightarrow> error option \<times> outbox_state" where
  "flushAttachIfLarge params s =
     (case compressionOptions (config params) of
        None \<Rightarrow> (Some TypeError, s)
      | Some co \<Rightarrow>
          if minimumBatchSizeInBytes co \<le> enat (bm_contentSizeInBytes (attachFlowBatch s))
          then (case popAttachFlowBatch s of (batch, s1) \<Rightarrow> flushInternal params batch s1)
          else (None, s))"

definition submitAttach ::
  "IOutboxParameters \<Rightarrow> BatchMessage \<Rightarrow> outbox_state \<Rightarrow> error option \<times> outbox_state" where
  "submitAttach params message s =
     (case push (attachFlowBatch s) message of
        (ok, bm) \<Rightarrow>
          (let s1 = s\<lparr>attachFlowBatch := bm\<rparr>
           in if \<not> ok
              then
                (case popAttachFlowBatch s1 of
                   (batch, s2) \<Rightarrow>
                     (case flushInternal params batch s2 of
                        (Some e, s3) \<Rightarrow> (Some e, s3)
                      | (None, s3) \<Rightarrow>
                          (case push (attachFlowBatch s3) message of
                             (ok', bm') \<Rightarrow>
                               (let s4 = s3\<lparr>attachFlowBatch := bm'\<rparr>
                                in if \<not> ok'
                                   then (Some (GenericError ''BatchTooLarge''
                                           [(''opSize'', PNum (enat (opSize message))),
                                            (''batchSize'',
                                               PNum (enat (bm_contentSizeInBytes (attachFlowBatch s4)))),
                                            (''count'', PNum (enat (bm_length (attachFlowBatch s4)))),
                                            (''limit'',
                                               PNum (hardLimit (options (attachFlowBatch s4))))]),
                                         s4)
                                   else flushAttachIfLarge params s4))))
              else flushAttachIfLarge params s1))"

subsection \<open>Observations on the trace\<close>

fun isTransportCall :: "call \<Rightarrow> bool" where
  "isTransportCall (SubmitBatchFn ms) = True"
| "isTransportCall (SubmitFn t c b m) = True"
| "isTransportCall DeltaManagerFlush = True"
| "isTransportCall c = False"

fun isLedgerCall :: "call \<Rightarrow> bool" where
  "isLedgerCall (OnSubmitMessage t r c l m) = True"
| "isLedgerCall c = False"

definition transportCalls :: "call list \<Rightarrow> call list" where
  "transportCalls t = filter isTransportCall t"

definition ledgerCalls :: "call list \<Rightarrow> call list" where
  "ledgerCalls t = filter isLedgerCall t"

subsection \<open>Concrete messages, stubs and states\<close>

text \<open>
  Small concrete values on which the properties below are run: an op with given contents
  and metadata reference, a heap with a few metadata objects, a compressor stub
  that packs the batch into its first message and reports a given size, a splitter stub
  that returns one chunk, and an outbox with given limits and pending ops.
\<close>

definition ex_op :: "string \<Rightarrow> addr option \<Rightarrow> BatchMessage" where
  "ex_op c r =
     \<lparr>contents = Some c, metadata = r, compression = None, localOpMetadata = JStr c,
      deserializedContent = \<lparr>dc_type = ''component'', dc_contents = JStr c\<rparr>,
      referenceSequenceNumber = 7\<rparr>"

definition ex_heap :: "addr \<Rightarrow> metadata_obj" where
  "ex_heap a =
     (if a = 0 then [(''batch'', JBool True), (''compressed'', JBool True)]
      else if a = 1 then [(''compressed'', JBool False)]
      else if a = 2 then [(''batch'', JBool True)]
      else [])"

definition stub_compressor :: "nat \<Rightarrow> IBatch \<Rightarrow> IBatch" where
  "stub_compressor n batch =
     \<lparr>content =
        (case content batch of
           [] \<Rightarrow> []
         | m # ms \<Rightarrow>
             m\<lparr>contents := Some (replicate n (CHR ''z'')), compression := Some ''lz4''\<rparr>
             # map (\<lambda>m'. m'\<lparr>contents := None\<rparr>) ms),
      contentSizeInBytes = n\<rparr>"

definition stub_splitter :: "IBatch \<Rightarrow> IBatch" where
  "stub_splitter batch =
     \<lparr>content = map (\<lambda>m. m\<lparr>contents := Some ''c''\<rparr>) (content batch),
      contentSizeInBytes = 1\<rparr>"

definition ex_params ::
  "enat \<Rightarrow> enat \<Rightarrow> nat \<Rightarrow> bool \<Rightarrow> bool \<Rightarrow> bool \<Rightarrow> IOutboxParameters" where
  "ex_params minSize maxSize compressedSize chunking online modern =
     \<lparr>shouldSend = (\<lambda>s. online),
      config = \<lparr>compressionOptions =
                  Some \<lparr>minimumBatchSizeInBytes = minSize, compressionAlgorithm = ''lz4''\<rparr>,
                maxBatchSizeInBytes = maxSize,
                cfg_enableOpReentryCheck = None\<rparr>,
      compressor = stub_compressor compressedSize,
      splitter = \<lparr>isBatchChunkingEnabled = chunking, splitCompressedBatch = stub_splitter\<rparr>,
      submitBatchFn_defined = modern\<rparr>"

definition ex_outbox ::
  "enat \<Rightarrow> enat \<Rightarrow> BatchMessage list \<Rightarrow> BatchMessage list \<Rightarrow> outbox_state" where
  "ex_outbox hard soft attachOps mainOps =
     \<lparr>attachFlowBatch =
        \<lparr>pendingBatch = attachOps,
         options = \<lparr>hardLimit = hard, softLimit = Some soft, enableOpReentryCheck = None\<rparr>\<rparr>,
      mainBatch =
        \<lparr>pendingBatch = mainOps,
         options = \<lparr>hardLimit = hard, softLimit = None, enableOpReentryCheck = None\<rparr>\<rparr>,
      heap = ex_heap, trace = []\<rparr>"

definition ex_batch :: "BatchMessage list \<Rightarrow> IBatch" where
  "ex_batch ops = \<lparr>content = ops, contentSizeInBytes = sum_list (map opSize ops)\<rparr>"

section \<open>Properties\<close>

lemmas ex_defs = ex_params_def ex_outbox_def ex_op_def ex_batch_def opSize_def
  stub_compressor_def stub_splitter_def

subsection \<open>What each step leaves alone, and what it appends to the trace\<close>

lemma record_call_simps [simp]:
  "trace (record_call c s) = trace s @ [c]"
  "heap (record_call c s) = heap s"
  "attachFlowBatch (record_call c s) = attachFlowBatch s"
  "mainBatch (record_call c s) = mainBatch s"
  by (simp_all add: record_call_def)

lemma persistBatch_trace:
  "trace (persistBatch ms s) = trace s @ map (onSubmitMessage (heap s)) ms"
  by (induction ms arbitrary: s) simp_all

lemma persistBatch_heap [simp]: "heap (persistBatch ms s) = heap s"
  by (induction ms arbitrary: s) simp_all

lemma persistBatch_attach [simp]: "attachFlowBatch (persistBatch ms s) = attachFlowBatch s"
  by (induction ms arbitrary: s) simp_all

lemma persistBatch_main [simp]: "mainBatch (persistBatch ms s) = mainBatch s"
  by (induction ms arbitrary: s) simp_all

lemma submitLegacy_attach [simp]: "attachFlowBatch (submitLegacy ms s) = attachFlowBatch s"
  by (induction ms arbitrary: s) (simp_all add: Let_def)

lemma submitLegacy_main [simp]: "mainBatch (submitLegacy ms s) = mainBatch s"
  by (induction ms arbitrary: s) (simp_all add: Let_def)

subsection \<open>The legacy loop\<close>

lemma get_prop_delete_prop [simp]: "get_prop (delete_prop k obj) k = JUndefined"
  by (induction obj) (auto simp: get_prop_def delete_prop_def)

lemma has_prop_delete_prop [simp]: "\<not> has_prop (delete_prop k obj) k"
  by (auto simp: has_prop_def delete_prop_def)

lemma stripCompressedFlag_not_truthy [simp]:
  "\<not> truthy (get_prop (stripCompressedFlag obj) ''compressed'')"
  by (simp add: stripCompressedFlag_def)

lemma stripCompressedFlag_idem [simp]:
  "stripCompressedFlag (stripCompressedFlag obj) = stripCompressedFlag obj"
  by (simp add: stripCompressedFlag_def)

lemma stripCompressed_at:
  "stripCompressed m h a = (if metadata m = Some a then stripCompressedFlag (h a) else h a)"
  by (auto simp: stripCompressed_def split: option.splits)

lemma stripCompressedFlag_stripCompressed [simp]:
  "stripCompressedFlag (stripCompressed m h a) = stripCompressedFlag (h a)"
  by (simp add: stripCompressed_at)

lemma seen_stripCompressed:
  "seen (stripCompressed m h) (metadata m) = seen (\<lambda>a. stripCompressedFlag (h a)) (metadata m)"
  by (simp add: seen_def stripCompressed_at split: option.splits)

text \<open>
  Every call of the loop sees the metadata object of its message with the flag stripped,
  whether this round or an earlier one (on a shared object) stripped it.
\<close>

lemma submitLegacy_trace:
  "trace (submitLegacy ms s) =
     trace s @ map (\<lambda>m. SubmitFn MessageType_Operation (deserializedContent m) True
                          (seen (\<lambda>a. stripCompressedFlag (heap s a)) (metadata m))) ms"
proof (induction ms arbitrary: s)
  case Nil
  show ?case by simp
next
  case (Cons m ms)
  let ?s2 = "record_call
               (SubmitFn MessageType_Operation (deserializedContent m) True
                  (seen (stripCompressed m (heap s)) (metadata m)))
               (s\<lparr>heap := stripCompressed m (heap s)\<rparr>)"
  have h2: "heap ?s2 = stripCompressed m (heap s)" by simp
  have t2: "trace ?s2 = trace s @ [SubmitFn MessageType_Operation (deserializedContent m) True
                  (seen (\<lambda>a. stripCompressedFlag (heap s a)) (metadata m))]"
    by (simp add: seen_stripCompressed)
  have "trace (submitLegacy (m # ms) s) = trace (submitLegacy ms ?s2)"
    by (simp add: Let_def)
  also have "\<dots> = trace ?s2 @ map (\<lambda>m'. SubmitFn MessageType_Operation (deserializedContent m') True
                          (seen (\<lambda>a. stripCompressedFlag (heap ?s2 a)) (metadata m'))) ms"
    by (rule Cons.IH)
  finally show ?case
    by (simp only: h2 t2 stripCompressedFlag_stripCompressed) simp
qed

lemma submitLegacy_heap:
  "heap (submitLegacy ms s) a =
     (if Some a \<in> metadata ` set ms then stripCompressedFlag (heap s a) else heap s a)"
proof (induction ms arbitrary: s)
  case Nil
  show ?case by simp
next
  case (Cons m ms)
  show ?case
    by (simp add: Let_def Cons.IH stripCompressed_at)
qed

subsection \<open>compressBatch and sendBatch: frames and paths\<close>

lemma compressBatch_frame [simp]:
  "heap (snd (compressBatch params batch s)) = heap s"
  "attachFlowBatch (snd (compressBatch params batch s)) = attachFlowBatch s"
  "mainBatch (snd (compressBatch params batch s)) = mainBatch s"
  by (simp_all add: compressBatch_def Let_def)

lemma sendBatch_frame [simp]:
  "attachFlowBatch (sendBatch params batch s) = attachFlowBatch s"
  "mainBatch (sendBatch params batch s) = mainBatch s"
  by (simp_all add: sendBatch_def)

lemma sendBatch_noop:
  "content batch = [] \<or> \<not> shouldSend params s \<Longrightarrow> sendBatch params batch s = s"
  by (auto simp: sendBatch_def)

lemma sendBatch_modern:
  "content batch \<noteq> [] \<Longrightarrow> shouldSend params s \<Longrightarrow> submitBatchFn_defined params \<Longrightarrow>
   sendBatch params batch s =
     record_call (SubmitBatchFn (map (toIBatchMessage (heap s)) (content batch))) s"
  by (simp add: sendBatch_def)

lemma sendBatch_legacy_trace:
  "content batch \<noteq> [] \<Longrightarrow> shouldSend params s \<Longrightarrow> \<not> submitBatchFn_defined params \<Longrightarrow>
   trace (sendBatch params batch s) =
     trace s @ map (\<lambda>m. SubmitFn MessageType_Operation (deserializedContent m) True
                          (seen (\<lambda>a. stripCompressedFlag (heap s a)) (metadata m))) (content batch)
       @ [DeltaManagerFlush]"
  by (simp add: sendBatch_def submitLegacy_trace)

lemma disabled_or_below:
  "(\<not> isCompressionEnabled co \<or> enat n < minimumBatchSizeInBytes co) =
   (enat n < minimumBatchSizeInBytes co)"
  by (cases "minimumBatchSizeInBytes co") (auto simp: isCompressionEnabled_def)

subsection \<open>Transport calls and ledger calls of a trace\<close>

lemma transportCalls_append [simp]:
  "transportCalls (xs @ ys) = transportCalls xs @ transportCalls ys"
  by (simp add: transportCalls_def)

lemma ledgerCalls_append [simp]:
  "ledgerCalls (xs @ ys) = ledgerCalls xs @ ledgerCalls ys"
  by (simp add: ledgerCalls_def)

lemma ledgerCalls_onSubmitMessage [simp]:
  "ledgerCalls (map (onSubmitMessage h) ms) = map (onSubmitMessage h) ms"
  by (induction ms) (simp_all add: ledgerCalls_def onSubmitMessage_def)

lemma transportCalls_onSubmitMessage [simp]:
  "transportCalls (map (onSubmitMessage h) ms) = []"
  by (induction ms) (simp_all add: transportCalls_def onSubmitMessage_def)

lemma compressBatch_calls [simp]:
  "transportCalls (trace (snd (compressBatch params batch s))) = transportCalls (trace s)"
  "ledgerCalls (trace (snd (compressBatch params batch s))) = ledgerCalls (trace s)"
  by (simp_all add: compressBatch_def Let_def transportCalls_def ledgerCalls_def)

lemma ledgerCalls_submitFn [simp]:
  "ledgerCalls (map (\<lambda>m. SubmitFn (t m) (c m) (b m) (md m)) ms) = []"
  by (induction ms) (simp_all add: ledgerCalls_def)

lemma sendBatch_ledgerCalls [simp]:
  "ledgerCalls (trace (sendBatch params batch s)) = ledgerCalls (trace s)"
  by (simp add: sendBatch_def submitLegacy_trace) (simp add: ledgerCalls_def)

lemma flushInternal_ok:
  "flushInternal params rawBatch s = (None, s') \<Longrightarrow>
   \<exists>processedBatch s1. compressBatch params rawBatch s = (Inr processedBatch, s1) \<and>
      s' = persistBatch (content rawBatch) (sendBatch params processedBatch s1)"
  by (auto simp: flushInternal_def split: prod.splits sum.splits)

subsection \<open>flushInternal and flush: frames and events\<close>

lemma flushInternal_frame [simp]:
  "attachFlowBatch (snd (flushInternal params batch s)) = attachFlowBatch s"
  "mainBatch (snd (flushInternal params batch s)) = mainBatch s"
proof -
  obtain c s1 where c: "compressBatch params batch s = (c, s1)"
    by (cases "compressBatch params batch s")
  then have "s1 = snd (compressBatch params batch s)" by simp
  then have "attachFlowBatch s1 = attachFlowBatch s" "mainBatch s1 = mainBatch s"
    by simp_all
  then show "attachFlowBatch (snd (flushInternal params batch s)) = attachFlowBatch s"
    "mainBatch (snd (flushInternal params batch s)) = mainBatch s"
    by (simp_all add: flushInternal_def c split: sum.splits)
qed

lemma popAttachFlowBatch_simps [simp]:
  "content (fst (popAttachFlowBatch s)) = pendingBatch (attachFlowBatch s)"
  "contentSizeInBytes (fst (popAttachFlowBatch s)) = bm_contentSizeInBytes (attachFlowBatch s)"
  "pendingBatch (attachFlowBatch (snd (popAttachFlowBatch s))) = []"
  "options (attachFlowBatch (snd (popAttachFlowBatch s))) = options (attachFlowBatch s)"
  "mainBatch (snd (popAttachFlowBatch s)) = mainBatch s"
  "heap (snd (popAttachFlowBatch s)) = heap s"
  "trace (snd (popAttachFlowBatch s)) = trace s"
  by (simp_all add: popAttachFlowBatch_def popBatch_def)

lemma popMainBatch_simps [simp]:
  "content (fst (popMainBatch s)) = pendingBatch (mainBatch s)"
  "contentSizeInBytes (fst (popMainBatch s)) = bm_contentSizeInBytes (mainBatch s)"
  "pendingBatch (mainBatch (snd (popMainBatch s))) = []"
  "options (mainBatch (snd (popMainBatch s))) = options (mainBatch s)"
  "attachFlowBatch (snd (popMainBatch s)) = attachFlowBatch s"
  "heap (snd (popMainBatch s)) = heap s"
  "trace (snd (popMainBatch s)) = trace s"
  by (simp_all add: popMainBatch_def popBatch_def)

lemma compressBatch_events:
  "\<exists>ev. trace (snd (compressBatch params batch s)) = trace s @ ev \<and>
        transportCalls ev = [] \<and> ledgerCalls ev = []"
  by (simp add: compressBatch_def Let_def transportCalls_def ledgerCalls_def)

lemma sendBatch_events:
  "\<exists>ev. trace (sendBatch params batch s) = trace s @ ev \<and> ledgerCalls ev = [] \<and>
        (content batch \<noteq> [] \<and> shouldSend params s \<longrightarrow> transportCalls ev \<noteq> [])"
  by (simp add: sendBatch_def submitLegacy_trace) (simp add: transportCalls_def ledgerCalls_def)

lemma compressBatch_nonempty:
  assumes "compressBatch params batch s = (Inr processedBatch, s1)"
    and "content batch \<noteq> []"
    and "\<forall>b. content b \<noteq> [] \<longrightarrow> content (compressor params b) \<noteq> []"
    and "\<forall>b. content b \<noteq> [] \<longrightarrow> content (splitCompressedBatch (splitter params) b) \<noteq> []"
  shows "content processedBatch \<noteq> []"
  using assms by (auto simp: compressBatch_def Let_def split: if_splits)

text \<open>What one \<open>flushInternal\<close> appends to the trace.\<close>

lemma flushInternal_events:
  assumes "flushInternal params batch s = (r, s')"
  shows "\<exists>ev. trace s' = trace s @ ev \<and>
          (r = None \<longrightarrow> ledgerCalls ev = map (onSubmitMessage (heap s')) (content batch)) \<and>
          (r = None \<and> content batch \<noteq> [] \<and> (\<forall>st. shouldSend params st) \<and>
           (\<forall>b. content b \<noteq> [] \<longrightarrow> content (compressor params b) \<noteq> []) \<and>
           (\<forall>b. content b \<noteq> [] \<longrightarrow> content (splitCompressedBatch (splitter params) b) \<noteq> [])
           \<longrightarrow> transportCalls ev \<noteq> [])"
proof (cases "compressBatch params batch s")
  case (Pair c s1)
  obtain ev1 where ev1: "trace s1 = trace s @ ev1" "transportCalls ev1 = []" "ledgerCalls ev1 = []"
    using compressBatch_events [of params batch s] Pair by auto
  show ?thesis
  proof (cases c)
    case (Inl e)
    then have "r = Some e" "s' = s1"
      using assms Pair by (simp_all add: flushInternal_def)
    then show ?thesis using ev1 by simp
  next
    case (Inr processedBatch)
    then have r: "r = None"
      and s': "s' = persistBatch (content batch) (sendBatch params processedBatch s1)"
      using assms Pair by (simp_all add: flushInternal_def)
    obtain ev2 where ev2: "trace (sendBatch params processedBatch s1) = trace s1 @ ev2"
      "ledgerCalls ev2 = []"
      "content processedBatch \<noteq> [] \<and> shouldSend params s1 \<longrightarrow> transportCalls ev2 \<noteq> []"
      using sendBatch_events [of params processedBatch s1] by auto
    let ?ev = "ev1 @ ev2 @ map (onSubmitMessage (heap s')) (content batch)"
    have t: "trace s' = trace s @ ?ev"
      by (simp add: s' persistBatch_trace ev1(1) ev2(1))
    have l: "ledgerCalls ?ev = map (onSubmitMessage (heap s')) (content batch)"
      by (simp add: ev1(3) ev2(2))
    have tr: "transportCalls ?ev \<noteq> []"
      if "content batch \<noteq> []" "\<forall>st. shouldSend params st"
        "\<forall>b. content b \<noteq> [] \<longrightarrow> content (compressor params b) \<noteq> []"
        "\<forall>b. content b \<noteq> [] \<longrightarrow> content (splitCompressedBatch (splitter params) b) \<noteq> []"
    proof -
      have "content processedBatch \<noteq> []"
        using compressBatch_nonempty [of params batch s processedBatch s1] Pair Inr that
        by simp
      then have "transportCalls ev2 \<noteq> []" using ev2(3) that(2) by simp
      then show ?thesis by simp
    qed
    show ?thesis using t l tr r by blast
  qed
qed

lemma flushInternal_error:
  assumes "flushInternal params batch s = (Some e, s')"
  shows "s' = record_call (CompressBatch batch) s \<and> content batch \<noteq> [] \<and>
         e = GenericError ''BatchTooLarge''
               [(''batchSize'', PNum (enat (contentSizeInBytes batch))),
                (''compressedBatchSize'',
                   PNum (enat (contentSizeInBytes (compressor params batch)))),
                (''count'', PNum (enat (length (content (compressor params batch))))),
                (''limit'', PNum (maxBatchSizeInBytes (config params))),
                (''chunkingEnabled'', PBool (isBatchChunkingEnabled (splitter params))),
                (''compressionOptions'', PStringify (compressionOptions (config params)))]"
  using assms
  by (auto simp: flushInternal_def compressBatch_def Let_def split: if_splits)

lemma flush_unfold:
  "flush params s =
     (case flushInternal params (fst (popAttachFlowBatch s)) (snd (popAttachFlowBatch s)) of
        (Some e, s2) \<Rightarrow> (Some e, s2)
      | (None, s2) \<Rightarrow> flushInternal params (fst (popMainBatch s2)) (snd (popMainBatch s2)))"
  by (simp add: flush_def split: prod.splits option.splits)

lemma stub_compressor_nonempty:
  "\<forall>b. content b \<noteq> [] \<longrightarrow> content (stub_compressor n b) \<noteq> []"
  by (simp add: stub_compressor_def split: list.splits)

lemma stub_splitter_nonempty:
  "\<forall>b. content b \<noteq> [] \<longrightarrow> content (stub_splitter b) \<noteq> []"
  by (simp add: stub_splitter_def)

subsection \<open>submit\<close>

lemma push_failure_unchanged: "\<not> fst (push bm message) \<Longrightarrow> snd (push bm message) = bm"
  by (simp add: push_def split: if_splits)

text \<open>
  Claim C7. For every op passed to \<open>submit\<close>: if the push into the main batch manager
  fails, \<open>submit\<close> throws \<open>BatchTooLarge\<close> carrying the size of the op, the current
  size of the main batch, its current number of ops and its hard limit, and the state is
  the one before the call (nothing is flushed, nothing is retried, nothing is sent or
  recorded); if the push succeeds, nothing is thrown and the only change is the pushed
  message in the main batch manager.
\<close>

theorem submit_result:
  "submit params message s =
     (if fst (push (mainBatch s) message)
      then (None, s\<lparr>mainBatch := snd (push (mainBatch s) message)\<rparr>)
      else (Some (GenericError ''BatchTooLarge''
                   [(''opSize'', PNum (enat (opSize message))),
                    (''batchSize'', PNum (enat (bm_contentSizeInBytes (mainBatch s)))),
                    (''count'', PNum (enat (bm_length (mainBatch s)))),
                    (''limit'', PNum (hardLimit (options (mainBatch s))))]),
            s))"
  by (simp add: submit_def push_def Let_def)

text \<open>
  With a hard limit of 5 bytes and 3 bytes pending, an op of 6 bytes is refused and an op
  of 2 bytes is queued.
\<close>

theorem submit_result_witness:
  "submit (ex_params \<infinity> 5 0 False True True) (ex_op ''abcdef'' None)
       (ex_outbox 5 65536 [] [ex_op ''abc'' None])
     = (Some (GenericError ''BatchTooLarge''
                [(''opSize'', PNum 6), (''batchSize'', PNum 3), (''count'', PNum 1),
                 (''limit'', PNum 5)]),
        ex_outbox 5 65536 [] [ex_op ''abc'' None])
   \<and> submit (ex_params \<infinity> 5 0 False True True) (ex_op ''de'' None)
       (ex_outbox 5 65536 [] [ex_op ''abc'' None])
     = (None, ex_outbox 5 65536 [] [ex_op ''abc'' None, ex_op ''de'' None])"
  using submit_result [of "ex_params \<infinity> 5 0 False True True" "ex_op ''abcdef'' None"
          "ex_outbox 5 65536 [] [ex_op ''abc'' None]"]
        submit_result [of "ex_params \<infinity> 5 0 False True True" "ex_op ''de'' None"
          "ex_outbox 5 65536 [] [ex_op ''abc'' None]"]
  by (simp add: push_def bm_contentSizeInBytes_def bm_length_def opSize_def ex_op_def
        ex_outbox_def numeral_eq_enat one_enat_def)

subsection \<open>The constructor\<close>

text \<open>
  Claim C6, as the code has it. At construction the limits are computed once. If
  compression is enabled (\<open>minimumBatchSizeInBytes\<close> is finite) both batch managers
  receive \<open>hardLimit = \<infinity>\<close> and the attach batch manager receives \<open>softLimit = \<infinity>\<close>;
  otherwise both receive \<open>hardLimit = maxBatchSizeInBytes\<close> and the attach batch manager
  receives \<open>softLimit\<close> = 64 KiB. The main batch manager is given no \<open>softLimit\<close> in
  either case. Both managers start empty.
\<close>

theorem Outbox_new_limits:
  "compressionOptions (config params) = Some co \<Longrightarrow>
   Outbox_new params h t =
     Inr \<lparr>attachFlowBatch =
            \<lparr>pendingBatch = [],
             options = \<lparr>hardLimit = (if minimumBatchSizeInBytes co \<noteq> \<infinity> then \<infinity>
                                      else maxBatchSizeInBytes (config params)),
                        softLimit = Some (if minimumBatchSizeInBytes co \<noteq> \<infinity> then \<infinity>
                                          else enat (64 * 1024)),
                        enableOpReentryCheck = cfg_enableOpReentryCheck (config params)\<rparr>\<rparr>,
          mainBatch =
            \<lparr>pendingBatch = [],
             options = \<lparr>hardLimit = (if minimumBatchSizeInBytes co \<noteq> \<infinity> then \<infinity>
                                      else maxBatchSizeInBytes (config params)),
                        softLimit = None,
                        enableOpReentryCheck = cfg_enableOpReentryCheck (config params)\<rparr>\<rparr>,
          heap = h, trace = t\<rparr>"
  by (simp add: Outbox_new_def BatchManager_new_def isCompressionEnabled_def
        defaultAttachFlowSoftLimitInBytes_def Let_def)

text \<open>A threshold of 1024 bytes enables compression; an infinite one disables it.\<close>

theorem Outbox_new_limits_witness:
  "compressionOptions (config (ex_params 1024 1000 0 False True True))
     = Some \<lparr>minimumBatchSizeInBytes = 1024, compressionAlgorithm = ''lz4''\<rparr> \<and>
   Outbox_new (ex_params 1024 1000 0 False True True) ex_heap [] = Inr (ex_outbox \<infinity> \<infinity> [] []) \<and>
   compressionOptions (config (ex_params \<infinity> 1000 0 False True True))
     = Some \<lparr>minimumBatchSizeInBytes = \<infinity>, compressionAlgorithm = ''lz4''\<rparr> \<and>
   Outbox_new (ex_params \<infinity> 1000 0 False True True) ex_heap []
     = Inr (ex_outbox 1000 65536 [] [])"
proof -
  have h1: "compressionOptions (config (ex_params 1024 1000 0 False True True))
     = Some \<lparr>minimumBatchSizeInBytes = 1024, compressionAlgorithm = ''lz4''\<rparr>"
    by (simp add: ex_defs)
  have h2: "compressionOptions (config (ex_params \<infinity> 1000 0 False True True))
     = Some \<lparr>minimumBatchSizeInBytes = \<infinity>, compressionAlgorithm = ''lz4''\<rparr>"
    by (simp add: ex_defs)
  show ?thesis
    using h1 h2 Outbox_new_limits [OF h1, of ex_heap "[]"] Outbox_new_limits [OF h2, of ex_heap "[]"]
    by (simp add: ex_defs numeral_eq_enat)
qed

text \<open>
  Claim C6 as stated says that with compression enabled both managers receive
  \<open>softLimit = \<infinity>\<close>. The options object of the main batch manager has no \<open>softLimit\<close>
  property.
\<close>

theorem Outbox_new_main_softLimit_counterexample:
  "isCompressionEnabled \<lparr>minimumBatchSizeInBytes = 1024, compressionAlgorithm = ''lz4''\<rparr> \<and>
   Outbox_new (ex_params 1024 1000 0 False True True) ex_heap [] = Inr (ex_outbox \<infinity> \<infinity> [] []) \<and>
   softLimit (options (mainBatch (ex_outbox \<infinity> \<infinity> [] []))) = None \<and>
   softLimit (options (mainBatch (ex_outbox \<infinity> \<infinity> [] []))) \<noteq> Some \<infinity>"
  by (simp add: Outbox_new_def BatchManager_new_def isCompressionEnabled_def ex_params_def
        ex_outbox_def defaultAttachFlowSoftLimitInBytes_def Let_def numeral_eq_enat)

subsection \<open>compressBatch\<close>

text \<open>
  Claim C4. \<open>compressBatch\<close> returns its input batch unchanged, without calling the
  compressor, whenever the batch is empty, compression is disabled (no compression
  options, or an infinite threshold), or the size of the batch is strictly below
  \<open>minimumBatchSizeInBytes\<close>; \<open>flushInternal\<close> then hands that very batch to
  \<open>sendBatch\<close>. In every other case the compressor is called on the batch.
\<close>

theorem compressBatch_threshold:
  "if content batch = [] \<or>
      (case compressionOptions (config params) of
         None \<Rightarrow> True
       | Some co \<Rightarrow> \<not> isCompressionEnabled co \<or>
                    enat (contentSizeInBytes batch) < minimumBatchSizeInBytes co)
   then compressBatch params batch s = (Inr batch, s) \<and>
        flushInternal params batch s =
          (None, persistBatch (content batch) (sendBatch params batch s))
   else \<exists>rest. trace (snd (compressBatch params batch s)) = trace s @ CompressBatch batch # rest"
proof (cases "compressionOptions (config params)")
  case None
  then show ?thesis by (simp add: compressBatch_def flushInternal_def)
next
  case (Some co)
  note eq = disabled_or_below [of co "contentSizeInBytes batch"]
  show ?thesis
  proof (cases "content batch = [] \<or> enat (contentSizeInBytes batch) < minimumBatchSizeInBytes co")
    case True
    then show ?thesis using Some eq by (auto simp: compressBatch_def flushInternal_def)
  next
    case False
    then show ?thesis using Some eq by (auto simp: compressBatch_def Let_def record_call_def)
  qed
qed

text \<open>
  With a threshold of 4 bytes, a batch of 3 bytes is returned as it is and a batch of 6
  bytes goes to the compressor.
\<close>

theorem compressBatch_threshold_witness:
  "compressBatch (ex_params 4 10 2 False True True) (ex_batch [ex_op ''abc'' None])
       (ex_outbox \<infinity> \<infinity> [] [])
     = (Inr (ex_batch [ex_op ''abc'' None]), ex_outbox \<infinity> \<infinity> [] [])
   \<and> (\<exists>rest. trace (snd (compressBatch (ex_params 4 10 2 False True True)
                         (ex_batch [ex_op ''abcdef'' None]) (ex_outbox \<infinity> \<infinity> [] [])))
        = trace (ex_outbox \<infinity> \<infinity> [] []) @ CompressBatch (ex_batch [ex_op ''abcdef'' None]) # rest)"
  using compressBatch_threshold [of "ex_batch [ex_op ''abc'' None]"
          "ex_params 4 10 2 False True True" "ex_outbox \<infinity> \<infinity> [] []"]
        compressBatch_threshold [of "ex_batch [ex_op ''abcdef'' None]"
          "ex_params 4 10 2 False True True" "ex_outbox \<infinity> \<infinity> [] []"]
  by (simp add: ex_params_def ex_batch_def ex_op_def opSize_def isCompressionEnabled_def
        numeral_eq_enat)

text \<open>
  Claim C3. For a non-empty batch whose size is at least \<open>minimumBatchSizeInBytes\<close> and
  whose compressed form still exceeds \<open>maxBatchSizeInBytes\<close>: if the splitter reports
  chunking disabled, \<open>compressBatch\<close>, and with it \<open>flushInternal\<close>, throws
  \<open>BatchTooLarge\<close> carrying the size of the raw batch, the size of the compressed batch,
  the number of ops of the compressed batch, the configured limit, the chunking flag and
  the compression options; if chunking is enabled, the batch returned by the splitter is
  the result, and \<open>flushInternal\<close> sends it and persists the raw batch without error.
\<close>

theorem compressBatch_overflow:
  assumes "content batch \<noteq> []"
    and "compressionOptions (config params) = Some co"
    and "minimumBatchSizeInBytes co \<le> enat (contentSizeInBytes batch)"
    and "maxBatchSizeInBytes (config params) < enat (contentSizeInBytes (compressor params batch))"
  shows
    "if isBatchChunkingEnabled (splitter params)
     then compressBatch params batch s =
            (Inr (splitCompressedBatch (splitter params) (compressor params batch)),
             s\<lparr>trace := trace s @ [CompressBatch batch,
                                   SplitCompressedBatch (compressor params batch)]\<rparr>) \<and>
          flushInternal params batch s =
            (None,
             persistBatch (content batch)
               (sendBatch params (splitCompressedBatch (splitter params) (compressor params batch))
                  (s\<lparr>trace := trace s @ [CompressBatch batch,
                                        SplitCompressedBatch (compressor params batch)]\<rparr>)))
     else compressBatch params batch s =
            (Inl (GenericError ''BatchTooLarge''
                    [(''batchSize'', PNum (enat (contentSizeInBytes batch))),
                     (''compressedBatchSize'',
                        PNum (enat (contentSizeInBytes (compressor params batch)))),
                     (''count'', PNum (enat (length (content (compressor params batch))))),
                     (''limit'', PNum (maxBatchSizeInBytes (config params))),
                     (''chunkingEnabled'', PBool False),
                     (''compressionOptions'', PStringify (Some co))]),
             s\<lparr>trace := trace s @ [CompressBatch batch]\<rparr>) \<and>
          flushInternal params batch s =
            (Some (GenericError ''BatchTooLarge''
                    [(''batchSize'', PNum (enat (contentSizeInBytes batch))),
                     (''compressedBatchSize'',
                        PNum (enat (contentSizeInBytes (compressor params batch)))),
                     (''count'', PNum (enat (length (content (compressor params batch))))),
                     (''limit'', PNum (maxBatchSizeInBytes (config params))),
                     (''chunkingEnabled'', PBool False),
                     (''compressionOptions'', PStringify (Some co))]),
             s\<lparr>trace := trace s @ [CompressBatch batch]\<rparr>)"
proof -
  have n1: "\<not> enat (contentSizeInBytes batch) < minimumBatchSizeInBytes co"
    using assms(3) by simp
  have n2: "\<not> enat (contentSizeInBytes (compressor params batch))
              \<le> maxBatchSizeInBytes (config params)"
    using assms(4) by simp
  show ?thesis
    by (simp add: compressBatch_def flushInternal_def Let_def record_call_def n1 n2
          assms(1) assms(2))
qed

text \<open>
  A batch of 6 bytes, a threshold of 4, a limit of 10 and a compressor that reports 50
  bytes: without chunking the flush fails, with chunking the chunk reaches the transport.
\<close>

theorem compressBatch_overflow_witness:
  "content (ex_batch [ex_op ''abcdef'' None]) \<noteq> [] \<and>
   compressionOptions (config (ex_params 4 10 50 False True True))
     = Some \<lparr>minimumBatchSizeInBytes = 4, compressionAlgorithm = ''lz4''\<rparr> \<and>
   (4::enat) \<le> enat (contentSizeInBytes (ex_batch [ex_op ''abcdef'' None])) \<and>
   maxBatchSizeInBytes (config (ex_params 4 10 50 False True True))
     < enat (contentSizeInBytes
               (compressor (ex_params 4 10 50 False True True) (ex_batch [ex_op ''abcdef'' None]))) \<and>
   flushInternal (ex_params 4 10 50 False True True) (ex_batch [ex_op ''abcdef'' None])
       (ex_outbox \<infinity> \<infinity> [] [])
     = (Some (GenericError ''BatchTooLarge''
                [(''batchSize'', PNum 6), (''compressedBatchSize'', PNum 50),
                 (''count'', PNum 1), (''limit'', PNum 10),
                 (''chunkingEnabled'', PBool False),
                 (''compressionOptions'',
                    PStringify (Some \<lparr>minimumBatchSizeInBytes = 4,
                                      compressionAlgorithm = ''lz4''\<rparr>))]),
        (ex_outbox \<infinity> \<infinity> [] [])\<lparr>trace := [CompressBatch (ex_batch [ex_op ''abcdef'' None])]\<rparr>) \<and>
   fst (flushInternal (ex_params 4 10 50 True True True) (ex_batch [ex_op ''abcdef'' None])
       (ex_outbox \<infinity> \<infinity> [] [])) = None \<and>
   transportCalls (trace (snd (flushInternal (ex_params 4 10 50 True True True)
       (ex_batch [ex_op ''abcdef'' None]) (ex_outbox \<infinity> \<infinity> [] []))))
     = [SubmitBatchFn [\<lparr>bm_contents = Some ''c'', bm_metadata = None,
                        bm_compression = Some ''lz4''\<rparr>]]"
proof -
  let ?B = "ex_batch [ex_op ''abcdef'' None]"
  let ?P = "ex_params 4 10 50 False True True"
  let ?Q = "ex_params 4 10 50 True True True"
  let ?co = "\<lparr>minimumBatchSizeInBytes = 4, compressionAlgorithm = ''lz4''\<rparr>"
  have h1: "content ?B \<noteq> []" by (simp add: ex_defs)
  have h2: "compressionOptions (config ?P) = Some ?co" by (simp add: ex_defs)
  have h2': "compressionOptions (config ?Q) = Some ?co" by (simp add: ex_defs)
  have h3: "minimumBatchSizeInBytes ?co \<le> enat (contentSizeInBytes ?B)"
    by (simp add: ex_defs numeral_eq_enat)
  have h4: "maxBatchSizeInBytes (config ?P) < enat (contentSizeInBytes (compressor ?P ?B))"
    by (simp add: ex_defs numeral_eq_enat)
  have h4': "maxBatchSizeInBytes (config ?Q) < enat (contentSizeInBytes (compressor ?Q ?B))"
    by (simp add: ex_defs numeral_eq_enat)
  show ?thesis
    using h1 h2 h3 h4
      compressBatch_overflow [OF h1 h2 h3 h4, of "ex_outbox \<infinity> \<infinity> [] []"]
      compressBatch_overflow [OF h1 h2' h3 h4', of "ex_outbox \<infinity> \<infinity> [] []"]
    by (simp add: ex_defs numeral_eq_enat one_enat_def persistBatch_trace sendBatch_def
          transportCalls_def onSubmitMessage_def toIBatchMessage_def seen_def record_call_def)
qed

subsection \<open>persistBatch\<close>

text \<open>
  Claim C2. For every batch flushed through \<open>flushInternal\<close>, the ledger
  (\<open>pendingStateManager.onSubmitMessage\<close>) receives exactly one record per op of the raw
  batch, in order, carrying the type, the reference sequence number and the contents of
  the op's deserialized content, its local op metadata and its metadata. Nothing is
  assumed about the compressor, the splitter or the send path: the records are those of
  the raw batch whether or not it was compressed or split, on the modern and on the legacy
  path. The metadata is the op's metadata object as it is when the record is made.
\<close>

theorem persistBatch_raw:
  assumes "flushInternal params rawBatch s = (None, s')"
  shows "ledgerCalls (trace s') =
           ledgerCalls (trace s) @
           map (\<lambda>message.
                  OnSubmitMessage (dc_type (deserializedContent message))
                    (referenceSequenceNumber message)
                    (dc_contents (deserializedContent message))
                    (localOpMetadata message)
                    (seen (heap s') (metadata message)))
               (content rawBatch)"
proof -
  from flushInternal_ok [OF assms] obtain processedBatch s1 where
    c: "compressBatch params rawBatch s = (Inr processedBatch, s1)" and
    s': "s' = persistBatch (content rawBatch) (sendBatch params processedBatch s1)"
    by blast
  have "ledgerCalls (trace s1) = ledgerCalls (trace s)"
    using compressBatch_calls(2) [of params rawBatch s] c by simp
  then have "ledgerCalls (trace s') =
      ledgerCalls (trace s) @ map (onSubmitMessage (heap s')) (content rawBatch)"
    by (simp add: s' persistBatch_trace)
  then show ?thesis
    by (simp add: onSubmitMessage_def [abs_def])
qed

text \<open>
  A batch of two ops that is compressed and sent on the legacy path: the ledger receives
  the two raw ops.
\<close>

theorem persistBatch_raw_witness:
  "flushInternal (ex_params 4 100 2 False True False)
       (ex_batch [ex_op ''abcdef'' (Some 2), ex_op ''gh'' None]) (ex_outbox \<infinity> \<infinity> [] [])
     = (None, snd (flushInternal (ex_params 4 100 2 False True False)
       (ex_batch [ex_op ''abcdef'' (Some 2), ex_op ''gh'' None]) (ex_outbox \<infinity> \<infinity> [] []))) \<and>
   ledgerCalls (trace (snd (flushInternal (ex_params 4 100 2 False True False)
       (ex_batch [ex_op ''abcdef'' (Some 2), ex_op ''gh'' None]) (ex_outbox \<infinity> \<infinity> [] []))))
     = [OnSubmitMessage ''component'' 7 (JStr ''abcdef'') (JStr ''abcdef'')
          (Some (2, [(''batch'', JBool True)])),
        OnSubmitMessage ''component'' 7 (JStr ''gh'') (JStr ''gh'') None] \<and>
   transportCalls (trace (snd (flushInternal (ex_params 4 100 2 False True False)
       (ex_batch [ex_op ''abcdef'' (Some 2), ex_op ''gh'' None]) (ex_outbox \<infinity> \<infinity> [] []))))
     = [SubmitFn ''op'' \<lparr>dc_type = ''component'', dc_contents = JStr ''abcdef''\<rparr> True
          (Some (2, [(''batch'', JBool True)])),
        SubmitFn ''op'' \<lparr>dc_type = ''component'', dc_contents = JStr ''gh''\<rparr> True None,
        DeltaManagerFlush]"
proof -
  let ?P = "ex_params 4 100 2 False True False"
  let ?B = "ex_batch [ex_op ''abcdef'' (Some 2), ex_op ''gh'' None]"
  let ?s = "ex_outbox \<infinity> \<infinity> [] []"
  define s' where "s' = snd (flushInternal ?P ?B ?s)"
  have h: "flushInternal ?P ?B ?s = (None, s')"
    unfolding s'_def
    by (simp add: flushInternal_def compressBatch_def ex_defs Let_def numeral_eq_enat)
  have hp: "heap s' 2 = [(''batch'', JBool True)]"
    unfolding s'_def
    by (simp add: flushInternal_def compressBatch_def ex_defs Let_def numeral_eq_enat
          sendBatch_def stripCompressed_def stripCompressedFlag_def ex_heap_def get_prop_def)
  have tr: "transportCalls (trace s')
     = [SubmitFn ''op'' \<lparr>dc_type = ''component'', dc_contents = JStr ''abcdef''\<rparr> True
          (Some (2, [(''batch'', JBool True)])),
        SubmitFn ''op'' \<lparr>dc_type = ''component'', dc_contents = JStr ''gh''\<rparr> True None,
        DeltaManagerFlush]"
    unfolding s'_def
    by (simp add: flushInternal_def compressBatch_def ex_defs Let_def numeral_eq_enat
          sendBatch_def stripCompressed_def stripCompressedFlag_def ex_heap_def get_prop_def
          persistBatch_trace seen_def MessageType_Operation_def transportCalls_def
          onSubmitMessage_def)
  have le: "ledgerCalls (trace s')
     = [OnSubmitMessage ''component'' 7 (JStr ''abcdef'') (JStr ''abcdef'')
          (Some (2, [(''batch'', JBool True)])),
        OnSubmitMessage ''component'' 7 (JStr ''gh'') (JStr ''gh'') None]"
    using persistBatch_raw [OF h]
    by (simp add: hp ex_defs seen_def ledgerCalls_def)
  from h tr le show ?thesis
    unfolding s'_def by simp
qed

subsection \<open>sendBatch\<close>

text \<open>
  Claim C8. If the batch to send is empty or \<open>shouldSend\<close> answers false at send time,
  \<open>sendBatch\<close> does nothing: no transport call is made and no error is raised, and
  \<open>persistBatch\<close> still appends every op of the raw batch to the ledger.
\<close>

theorem sendBatch_disconnected:
  assumes "compressBatch params rawBatch s = (Inr processedBatch, s1)"
    and "content processedBatch = [] \<or> \<not> shouldSend params s1"
  shows "sendBatch params processedBatch s1 = s1 \<and>
         flushInternal params rawBatch s = (None, persistBatch (content rawBatch) s1) \<and>
         transportCalls (trace (snd (flushInternal params rawBatch s))) = transportCalls (trace s) \<and>
         ledgerCalls (trace (snd (flushInternal params rawBatch s))) =
           ledgerCalls (trace s) @ map (onSubmitMessage (heap s)) (content rawBatch)"
proof -
  have n: "sendBatch params processedBatch s1 = s1"
    using assms(2) by (rule sendBatch_noop)
  have f: "flushInternal params rawBatch s = (None, persistBatch (content rawBatch) s1)"
    by (simp add: flushInternal_def assms(1) n)
  have h: "heap s1 = heap s"
    using compressBatch_frame(1) [of params rawBatch s] assms(1) by simp
  have t: "transportCalls (trace s1) = transportCalls (trace s)"
    using compressBatch_calls(1) [of params rawBatch s] assms(1) by simp
  have l: "ledgerCalls (trace s1) = ledgerCalls (trace s)"
    using compressBatch_calls(2) [of params rawBatch s] assms(1) by simp
  show ?thesis
    by (simp add: n f persistBatch_trace h t l)
qed

text \<open>A session that is not connected: nothing is sent, the op is recorded.\<close>

theorem sendBatch_disconnected_witness:
  "compressBatch (ex_params \<infinity> 100 0 False False True) (ex_batch [ex_op ''abc'' None])
       (ex_outbox 100 65536 [] [])
     = (Inr (ex_batch [ex_op ''abc'' None]), ex_outbox 100 65536 [] []) \<and>
   shouldSend (ex_params \<infinity> 100 0 False False True) (ex_outbox 100 65536 [] []) = False \<and>
   fst (flushInternal (ex_params \<infinity> 100 0 False False True) (ex_batch [ex_op ''abc'' None])
       (ex_outbox 100 65536 [] [])) = None \<and>
   transportCalls (trace (snd (flushInternal (ex_params \<infinity> 100 0 False False True)
       (ex_batch [ex_op ''abc'' None]) (ex_outbox 100 65536 [] [])))) = [] \<and>
   ledgerCalls (trace (snd (flushInternal (ex_params \<infinity> 100 0 False False True)
       (ex_batch [ex_op ''abc'' None]) (ex_outbox 100 65536 [] []))))
     = [OnSubmitMessage ''component'' 7 (JStr ''abc'') (JStr ''abc'') None]"
proof -
  let ?P = "ex_params \<infinity> 100 0 False False True"
  let ?B = "ex_batch [ex_op ''abc'' None]"
  let ?s = "ex_outbox 100 65536 [] []"
  have h1: "compressBatch ?P ?B ?s = (Inr ?B, ?s)"
    by (simp add: compressBatch_def ex_defs)
  have h2: "content ?B = [] \<or> \<not> shouldSend ?P ?s"
    by (simp add: ex_defs)
  show ?thesis
    using h1 h2 sendBatch_disconnected [OF h1 h2]
    by (simp add: ex_defs onSubmitMessage_def seen_def transportCalls_def ledgerCalls_def)
qed

text \<open>
  Claim C9, as the code has it. On the legacy path (no \<open>submitBatchFn\<close>), for a
  non-empty batch and a connected session, the transport receives one \<open>submitFn\<close> call
  per op, in order, with the type \<open>MessageType.Operation\<close>, the deserialized content of
  the op as it is (nothing is decompressed), the batch flag set, and the op's metadata
  object after the guarded delete; then exactly one \<open>deltaManager.flush\<close>. At the call
  the object has no truthy \<open>compressed\<close> property: a \<open>compressed\<close> property that held
  a truthy value has been deleted, and an object whose \<open>compressed\<close> property is
  missing or falsy is passed unchanged. No other object of the heap is touched.
\<close>

theorem sendBatch_legacy:
  assumes "\<not> submitBatchFn_defined params" and "content batch \<noteq> []"
    and "shouldSend params s"
  shows "trace (sendBatch params batch s) =
           trace s @
           map (\<lambda>message.
                  SubmitFn MessageType_Operation (deserializedContent message) True
                    (seen (\<lambda>a. stripCompressedFlag (heap s a)) (metadata message)))
               (content batch) @
           [DeltaManagerFlush] \<and>
         (\<forall>a. heap (sendBatch params batch s) a =
                (if Some a \<in> metadata ` set (content batch)
                 then stripCompressedFlag (heap s a) else heap s a)) \<and>
         (\<forall>obj. \<not> truthy (get_prop (stripCompressedFlag obj) ''compressed'') \<and>
                (if truthy (get_prop obj ''compressed'')
                 then stripCompressedFlag obj = delete_prop ''compressed'' obj \<and>
                      \<not> has_prop (stripCompressedFlag obj) ''compressed''
                 else stripCompressedFlag obj = obj))"
proof -
  have "trace (sendBatch params batch s) =
           trace s @
           map (\<lambda>message.
                  SubmitFn MessageType_Operation (deserializedContent message) True
                    (seen (\<lambda>a. stripCompressedFlag (heap s a)) (metadata message)))
               (content batch) @
           [DeltaManagerFlush]"
    using assms by (simp add: sendBatch_legacy_trace)
  moreover have "\<forall>a. heap (sendBatch params batch s) a =
                (if Some a \<in> metadata ` set (content batch)
                 then stripCompressedFlag (heap s a) else heap s a)"
    using assms by (simp add: sendBatch_def submitLegacy_heap)
  moreover have "\<forall>obj. \<not> truthy (get_prop (stripCompressedFlag obj) ''compressed'') \<and>
                (if truthy (get_prop obj ''compressed'')
                 then stripCompressedFlag obj = delete_prop ''compressed'' obj \<and>
                      \<not> has_prop (stripCompressedFlag obj) ''compressed''
                 else stripCompressedFlag obj = obj)"
    by (simp add: stripCompressedFlag_def)
  ultimately show ?thesis by blast
qed

text \<open>Two ops that share one metadata object with \<open>compressed: true\<close>.\<close>

theorem sendBatch_legacy_witness:
  "\<not> submitBatchFn_defined (ex_params \<infinity> 100 0 False True False) \<and>
   content (ex_batch [ex_op ''abc'' (Some 0), ex_op ''de'' (Some 0)]) \<noteq> [] \<and>
   shouldSend (ex_params \<infinity> 100 0 False True False) (ex_outbox 100 65536 [] []) \<and>
   trace (sendBatch (ex_params \<infinity> 100 0 False True False)
            (ex_batch [ex_op ''abc'' (Some 0), ex_op ''de'' (Some 0)]) (ex_outbox 100 65536 [] []))
     = [SubmitFn ''op'' \<lparr>dc_type = ''component'', dc_contents = JStr ''abc''\<rparr> True
          (Some (0, [(''batch'', JBool True)])),
        SubmitFn ''op'' \<lparr>dc_type = ''component'', dc_contents = JStr ''de''\<rparr> True
          (Some (0, [(''batch'', JBool True)])),
        DeltaManagerFlush]"
proof -
  let ?P = "ex_params \<infinity> 100 0 False True False"
  let ?B = "ex_batch [ex_op ''abc'' (Some 0), ex_op ''de'' (Some 0)]"
  let ?s = "ex_outbox 100 65536 [] []"
  have h1: "\<not> submitBatchFn_defined ?P" by (simp add: ex_defs)
  have h2: "content ?B \<noteq> []" by (simp add: ex_defs)
  have h3: "shouldSend ?P ?s" by (simp add: ex_defs)
  show ?thesis
    using h1 h2 h3 sendBatch_legacy [OF h1 h2 h3]
    by (simp add: ex_defs seen_def stripCompressedFlag_def ex_heap_def get_prop_def
          delete_prop_def MessageType_Operation_def)
qed

text \<open>
  Claim C9 as stated says that any \<open>compressed\<close> flag found in the metadata is absent
  at the submission call. The guard \<open>if (message.metadata?.compressed)\<close> tests the value:
  with \<open>compressed: false\<close> nothing is deleted and the property reaches \<open>submitFn\<close>.
\<close>

theorem sendBatch_legacy_falsy_flag_counterexample:
  "trace (sendBatch (ex_params \<infinity> 100 0 False True False)
            (ex_batch [ex_op ''abc'' (Some 1)]) (ex_outbox 100 65536 [] []))
     = [SubmitFn ''op'' \<lparr>dc_type = ''component'', dc_contents = JStr ''abc''\<rparr> True
          (Some (1, [(''compressed'', JBool False)])),
        DeltaManagerFlush] \<and>
   has_prop (ex_heap 1) ''compressed'' \<and>
   has_prop [(''compressed'', JBool False)] ''compressed''"
  by (simp add: sendBatch_def ex_defs seen_def stripCompressed_def stripCompressedFlag_def
        ex_heap_def get_prop_def has_prop_def MessageType_Operation_def record_call_def)

subsection \<open>flush\<close>

text \<open>
  Claim C1. For every call to \<open>flush\<close>, the attach-flow batch is popped and completely
  processed (compressed, sent, persisted) before the main batch is popped and processed:
  the trace grows by the calls \<open>evA\<close> made for the attach batch, followed by the calls
  \<open>evM\<close> made for the main batch, and in the state \<open>s1\<close> reached when the attach batch
  is done the main batch manager still holds its ops. If the attach flush throws, the main
  batch is never popped. If nothing is thrown, the ledger calls within \<open>evA\<close> are those
  of the attach ops and the ledger calls within \<open>evM\<close> those of the main ops. In
  particular, when both managers are non-empty, the session is connected and neither the
  compressor nor the splitter returns an empty batch for a non-empty one, both \<open>evA\<close>
  and \<open>evM\<close> contain a transport call: the transport sees the send of the attach batch
  before the send of the main batch.
\<close>

theorem flush_attach_before_main:
  assumes "flush params s = (r, s')"
  shows "\<exists>rA s1 evA evM.
      flushInternal params (fst (popAttachFlowBatch s)) (snd (popAttachFlowBatch s)) = (rA, s1) \<and>
      mainBatch s1 = mainBatch s \<and>
      trace s1 = trace s @ evA \<and>
      trace s' = trace s @ evA @ evM \<and>
      (if rA = None
       then flushInternal params (fst (popMainBatch s1)) (snd (popMainBatch s1)) = (r, s') \<and>
            ledgerCalls evA = map (onSubmitMessage (heap s1)) (pendingBatch (attachFlowBatch s))
       else r = rA \<and> s' = s1 \<and> evM = []) \<and>
      (r = None \<longrightarrow>
         ledgerCalls evM = map (onSubmitMessage (heap s')) (pendingBatch (mainBatch s))) \<and>
      (r = None \<and>
       pendingBatch (attachFlowBatch s) \<noteq> [] \<and> pendingBatch (mainBatch s) \<noteq> [] \<and>
       (\<forall>st. shouldSend params st) \<and>
       (\<forall>b. content b \<noteq> [] \<longrightarrow> content (compressor params b) \<noteq> []) \<and>
       (\<forall>b. content b \<noteq> [] \<longrightarrow> content (splitCompressedBatch (splitter params) b) \<noteq> [])
       \<longrightarrow> transportCalls evA \<noteq> [] \<and> transportCalls evM \<noteq> [] \<and>
           transportCalls (trace s') =
             transportCalls (trace s) @ transportCalls evA @ transportCalls evM)"
  (is "\<exists>rA s1 evA evM. ?Q rA s1 evA evM")
proof -
  let ?rawA = "fst (popAttachFlowBatch s)" and ?sA = "snd (popAttachFlowBatch s)"
  obtain rA s1 where fA: "flushInternal params ?rawA ?sA = (rA, s1)"
    by (cases "flushInternal params ?rawA ?sA") 
  have m1: "mainBatch s1 = mainBatch s" and a1: "attachFlowBatch s1 = attachFlowBatch ?sA"
    using flushInternal_frame [of params ?rawA ?sA] fA by simp_all
  from flushInternal_events [OF fA] obtain evA where
    evA: "trace s1 = trace s @ evA"
      "rA = None \<longrightarrow> ledgerCalls evA = map (onSubmitMessage (heap s1)) (pendingBatch (attachFlowBatch s))"
      "rA = None \<and> pendingBatch (attachFlowBatch s) \<noteq> [] \<and> (\<forall>st. shouldSend params st) \<and>
           (\<forall>b. content b \<noteq> [] \<longrightarrow> content (compressor params b) \<noteq> []) \<and>
           (\<forall>b. content b \<noteq> [] \<longrightarrow> content (splitCompressedBatch (splitter params) b) \<noteq> [])
           \<longrightarrow> transportCalls evA \<noteq> []"
    by auto
  show ?thesis
  proof (cases rA)
    case (Some e)
    then have "r = rA" "s' = s1"
      using assms fA by (simp_all add: flush_def split: prod.splits)
    then have "?Q rA s1 evA []"
      using fA m1 evA Some by simp
    then show ?thesis by blast
  next
    case None
    let ?rawM = "fst (popMainBatch s1)" and ?sM = "snd (popMainBatch s1)"
    have fM: "flushInternal params ?rawM ?sM = (r, s')"
      using assms fA None by (simp add: flush_def split: prod.splits)
    from flushInternal_events [OF fM] obtain evM where
      evM: "trace s' = trace s1 @ evM"
        "r = None \<longrightarrow> ledgerCalls evM = map (onSubmitMessage (heap s')) (pendingBatch (mainBatch s))"
        "r = None \<and> pendingBatch (mainBatch s) \<noteq> [] \<and> (\<forall>st. shouldSend params st) \<and>
           (\<forall>b. content b \<noteq> [] \<longrightarrow> content (compressor params b) \<noteq> []) \<and>
           (\<forall>b. content b \<noteq> [] \<longrightarrow> content (splitCompressedBatch (splitter params) b) \<noteq> [])
           \<longrightarrow> transportCalls evM \<noteq> []"
      using m1 by auto
    have t: "trace s' = trace s @ evA @ evM"
      by (simp add: evM(1) evA(1))
    have "?Q rA s1 evA evM"
      using fA m1 evA t fM evM None by auto
    then show ?thesis by blast
  qed
qed

text \<open>One attach op and one main op, no compression, the modern path.\<close>

theorem flush_attach_before_main_witness:
  "flush (ex_params \<infinity> 100 0 False True True)
      (ex_outbox 100 65536 [ex_op ''a1'' None] [ex_op ''m1'' None])
     = (None, snd (flush (ex_params \<infinity> 100 0 False True True)
                     (ex_outbox 100 65536 [ex_op ''a1'' None] [ex_op ''m1'' None]))) \<and>
   trace (snd (flush (ex_params \<infinity> 100 0 False True True)
                (ex_outbox 100 65536 [ex_op ''a1'' None] [ex_op ''m1'' None])))
     = [SubmitBatchFn [\<lparr>bm_contents = Some ''a1'', bm_metadata = None, bm_compression = None\<rparr>],
        OnSubmitMessage ''component'' 7 (JStr ''a1'') (JStr ''a1'') None,
        SubmitBatchFn [\<lparr>bm_contents = Some ''m1'', bm_metadata = None, bm_compression = None\<rparr>],
        OnSubmitMessage ''component'' 7 (JStr ''m1'') (JStr ''m1'') None] \<and>
   (\<exists>(s1::outbox_state) evA evM.
      mainBatch s1 = mainBatch (ex_outbox 100 65536 [ex_op ''a1'' None] [ex_op ''m1'' None]) \<and>
      trace s1 = evA \<and>
      trace (snd (flush (ex_params \<infinity> 100 0 False True True)
                (ex_outbox 100 65536 [ex_op ''a1'' None] [ex_op ''m1'' None]))) = evA @ evM \<and>
      transportCalls evA \<noteq> [] \<and> transportCalls evM \<noteq> [])"
proof -
  let ?P = "ex_params \<infinity> 100 0 False True True"
  let ?s = "ex_outbox 100 65536 [ex_op ''a1'' None] [ex_op ''m1'' None]"
  define s' where "s' = snd (flush ?P ?s)"
  have fl: "flush ?P ?s = (None, s')"
    unfolding s'_def
    by (simp add: flush_unfold flushInternal_def compressBatch_def popAttachFlowBatch_def
          popMainBatch_def popBatch_def ex_params_def ex_outbox_def)
  have tr: "trace s'
     = [SubmitBatchFn [\<lparr>bm_contents = Some ''a1'', bm_metadata = None, bm_compression = None\<rparr>],
        OnSubmitMessage ''component'' 7 (JStr ''a1'') (JStr ''a1'') None,
        SubmitBatchFn [\<lparr>bm_contents = Some ''m1'', bm_metadata = None, bm_compression = None\<rparr>],
        OnSubmitMessage ''component'' 7 (JStr ''m1'') (JStr ''m1'') None]"
    unfolding s'_def
    by (simp add: flush_unfold flushInternal_def compressBatch_def popAttachFlowBatch_def
          popMainBatch_def popBatch_def ex_params_def ex_outbox_def sendBatch_def
          toIBatchMessage_def onSubmitMessage_def seen_def ex_op_def record_call_def)
  have c1: "\<forall>st. shouldSend ?P st" by (simp add: ex_params_def)
  have c2: "\<forall>b. content b \<noteq> [] \<longrightarrow> content (compressor ?P b) \<noteq> []"
    using stub_compressor_nonempty by (simp add: ex_params_def)
  have c3: "\<forall>b. content b \<noteq> [] \<longrightarrow> content (splitCompressedBatch (splitter ?P) b) \<noteq> []"
    using stub_splitter_nonempty by (simp add: ex_params_def)
  have n: "pendingBatch (attachFlowBatch ?s) \<noteq> []" "pendingBatch (mainBatch ?s) \<noteq> []"
    "trace ?s = []"
    by (simp_all add: ex_outbox_def)
  have ex: "\<exists>(s1::outbox_state) evA evM. mainBatch s1 = mainBatch ?s \<and> trace s1 = evA \<and>
      trace s' = evA @ evM \<and> transportCalls evA \<noteq> [] \<and> transportCalls evM \<noteq> []"
    using flush_attach_before_main [OF fl] c1 c2 c3 n
    apply (elim exE conjE)
    subgoal for rA s1 evA evM
      apply (rule exI [of _ s1])
      apply (rule exI [of _ evA])
      apply (rule exI [of _ evM])
      apply simp
      done
    done
  from fl tr ex show ?thesis
    unfolding s'_def by blast
qed

text \<open>
  Claim C10. When \<open>flushInternal\<close> throws (which it does only from the overflow path of
  \<open>compressBatch\<close>), the batch has already been popped from its manager, and it is
  neither sent nor recorded: the manager is empty, the only call made is the one to the
  compressor, and the transport calls and the ledger calls of the trace are what they
  were. For the attach batch this is also the result of \<open>flush\<close>, which leaves the main
  batch manager as it is.
\<close>

theorem flushInternal_overflow_not_atomic:
  "(flushInternal params (fst (popAttachFlowBatch s)) (snd (popAttachFlowBatch s)) = (Some e, s')
      \<longrightarrow> (\<exists>props. e = GenericError ''BatchTooLarge'' props) \<and>
          flush params s = (Some e, s') \<and>
          pendingBatch (attachFlowBatch s) \<noteq> [] \<and>
          pendingBatch (attachFlowBatch s') = [] \<and>
          mainBatch s' = mainBatch s \<and>
          trace s' = trace s @ [CompressBatch (fst (popAttachFlowBatch s))] \<and>
          transportCalls (trace s') = transportCalls (trace s) \<and>
          ledgerCalls (trace s') = ledgerCalls (trace s)) \<and>
   (flushInternal params (fst (popMainBatch s)) (snd (popMainBatch s)) = (Some e, s')
      \<longrightarrow> (\<exists>props. e = GenericError ''BatchTooLarge'' props) \<and>
          pendingBatch (mainBatch s) \<noteq> [] \<and>
          pendingBatch (mainBatch s') = [] \<and>
          attachFlowBatch s' = attachFlowBatch s \<and>
          trace s' = trace s @ [CompressBatch (fst (popMainBatch s))] \<and>
          transportCalls (trace s') = transportCalls (trace s) \<and>
          ledgerCalls (trace s') = ledgerCalls (trace s))"
proof (intro conjI impI)
  assume a: "flushInternal params (fst (popAttachFlowBatch s)) (snd (popAttachFlowBatch s)) = (Some e, s')"
  note err = flushInternal_error [OF a]
  from err show "\<exists>props. e = GenericError ''BatchTooLarge'' props" by blast
  show "flush params s = (Some e, s')"
    using a by (simp add: flush_unfold)
  from err show "pendingBatch (attachFlowBatch s) \<noteq> []" by simp
  from err show "pendingBatch (attachFlowBatch s') = []" by simp
  from err show "mainBatch s' = mainBatch s" by simp
  from err show t: "trace s' = trace s @ [CompressBatch (fst (popAttachFlowBatch s))]" by simp
  from t show "transportCalls (trace s') = transportCalls (trace s)"
    by (simp add: transportCalls_def)
  from t show "ledgerCalls (trace s') = ledgerCalls (trace s)"
    by (simp add: ledgerCalls_def)
next
  assume a: "flushInternal params (fst (popMainBatch s)) (snd (popMainBatch s)) = (Some e, s')"
  note err = flushInternal_error [OF a]
  from err show "\<exists>props. e = GenericError ''BatchTooLarge'' props" by blast
  from err show "pendingBatch (mainBatch s) \<noteq> []" by simp
  from err show "pendingBatch (mainBatch s') = []" by simp
  from err show "attachFlowBatch s' = attachFlowBatch s" by simp
  from err show t: "trace s' = trace s @ [CompressBatch (fst (popMainBatch s))]" by simp
  from t show "transportCalls (trace s') = transportCalls (trace s)"
    by (simp add: transportCalls_def)
  from t show "ledgerCalls (trace s') = ledgerCalls (trace s)"
    by (simp add: ledgerCalls_def)
qed

text \<open>
  A threshold of 4 bytes, a limit of 10 and a compressor that reports 50 bytes, without
  chunking: the attach op is gone after the failed \<open>flush\<close>, and so would be the main op.
\<close>

theorem flushInternal_overflow_not_atomic_witness:
  "flush (ex_params 4 10 50 False True True)
      (ex_outbox \<infinity> \<infinity> [ex_op ''abcdef'' None] [ex_op ''ghijkl'' None])
     = (Some (GenericError ''BatchTooLarge''
                [(''batchSize'', PNum 6), (''compressedBatchSize'', PNum 50),
                 (''count'', PNum 1), (''limit'', PNum 10),
                 (''chunkingEnabled'', PBool False),
                 (''compressionOptions'',
                    PStringify (Some \<lparr>minimumBatchSizeInBytes = 4,
                                      compressionAlgorithm = ''lz4''\<rparr>))]),
        (ex_outbox \<infinity> \<infinity> [] [ex_op ''ghijkl'' None])
          \<lparr>trace := [CompressBatch (ex_batch [ex_op ''abcdef'' None])]\<rparr>) \<and>
   flushInternal (ex_params 4 10 50 False True True)
      (fst (popMainBatch (ex_outbox \<infinity> \<infinity> [ex_op ''abcdef'' None] [ex_op ''ghijkl'' None])))
      (snd (popMainBatch (ex_outbox \<infinity> \<infinity> [ex_op ''abcdef'' None] [ex_op ''ghijkl'' None])))
     = (Some (GenericError ''BatchTooLarge''
                [(''batchSize'', PNum 6), (''compressedBatchSize'', PNum 50),
                 (''count'', PNum 1), (''limit'', PNum 10),
                 (''chunkingEnabled'', PBool False),
                 (''compressionOptions'',
                    PStringify (Some \<lparr>minimumBatchSizeInBytes = 4,
                                      compressionAlgorithm = ''lz4''\<rparr>))]),
        (ex_outbox \<infinity> \<infinity> [ex_op ''abcdef'' None] [])
          \<lparr>trace := [CompressBatch (ex_batch [ex_op ''ghijkl'' None])]\<rparr>) \<and>
   transportCalls (trace ((ex_outbox \<infinity> \<infinity> [] [ex_op ''ghijkl'' None])
          \<lparr>trace := [CompressBatch (ex_batch [ex_op ''abcdef'' None])]\<rparr>)) = [] \<and>
   ledgerCalls (trace ((ex_outbox \<infinity> \<infinity> [] [ex_op ''ghijkl'' None])
          \<lparr>trace := [CompressBatch (ex_batch [ex_op ''abcdef'' None])]\<rparr>)) = [] \<and>
   pendingBatch (mainBatch ((ex_outbox \<infinity> \<infinity> [ex_op ''abcdef'' None] [])
          \<lparr>trace := [CompressBatch (ex_batch [ex_op ''ghijkl'' None])]\<rparr>)) = []"
proof -
  let ?P = "ex_params 4 10 50 False True True"
  let ?s = "ex_outbox \<infinity> \<infinity> [ex_op ''abcdef'' None] [ex_op ''ghijkl'' None]"
  let ?e = "GenericError ''BatchTooLarge''
                [(''batchSize'', PNum 6), (''compressedBatchSize'', PNum 50),
                 (''count'', PNum 1), (''limit'', PNum 10),
                 (''chunkingEnabled'', PBool False),
                 (''compressionOptions'',
                    PStringify (Some \<lparr>minimumBatchSizeInBytes = 4,
                                      compressionAlgorithm = ''lz4''\<rparr>))]"
  let ?sA = "(ex_outbox \<infinity> \<infinity> [] [ex_op ''ghijkl'' None])
          \<lparr>trace := [CompressBatch (ex_batch [ex_op ''abcdef'' None])]\<rparr>"
  let ?sM = "(ex_outbox \<infinity> \<infinity> [ex_op ''abcdef'' None] [])
          \<lparr>trace := [CompressBatch (ex_batch [ex_op ''ghijkl'' None])]\<rparr>"
  have hA: "flushInternal ?P (fst (popAttachFlowBatch ?s)) (snd (popAttachFlowBatch ?s)) = (Some ?e, ?sA)"
    by (simp add: flushInternal_def compressBatch_def popAttachFlowBatch_def popBatch_def
          bm_contentSizeInBytes_def ex_defs Let_def numeral_eq_enat one_enat_def record_call_def)
  have hM: "flushInternal ?P (fst (popMainBatch ?s)) (snd (popMainBatch ?s)) = (Some ?e, ?sM)"
    by (simp add: flushInternal_def compressBatch_def popMainBatch_def popBatch_def
          bm_contentSizeInBytes_def ex_defs Let_def numeral_eq_enat one_enat_def record_call_def)
  have tA: "trace ?s = []" by (simp add: ex_outbox_def)
  from flushInternal_overflow_not_atomic [of ?P ?s ?e ?sA] hA
  have A: "flush ?P ?s = (Some ?e, ?sA)" "transportCalls (trace ?sA) = transportCalls (trace ?s)"
    "ledgerCalls (trace ?sA) = ledgerCalls (trace ?s)"
    by blast+
  from flushInternal_overflow_not_atomic [of ?P ?s ?e ?sM] hM
  have M: "pendingBatch (mainBatch ?sM) = []"
    by blast
  show ?thesis
    using A M hM by (simp add: tA transportCalls_def ledgerCalls_def)
qed

subsection \<open>submitAttach\<close>

lemma push_options [simp]: "options (snd (push bm message)) = options bm"
  by (simp add: push_def)

lemma constructed_options:
  assumes "constructed params s" and "compressionOptions (config params) = Some co"
  shows "hardLimit (options (attachFlowBatch s)) =
           (if isCompressionEnabled co then \<infinity> else maxBatchSizeInBytes (config params))"
    and "hardLimit (options (mainBatch s)) =
           (if isCompressionEnabled co then \<infinity> else maxBatchSizeInBytes (config params))"
  using assms
  by (simp_all add: constructed_def Outbox_new_def BatchManager_new_def Let_def)

lemma constructed_Outbox_new:
  "Outbox_new params h t = Inr s \<Longrightarrow> constructed params s"
  by (auto simp: constructed_def Outbox_new_def BatchManager_new_def Let_def
           split: option.splits)

lemma constructed_cong:
  "options (attachFlowBatch s') = options (attachFlowBatch s) \<Longrightarrow>
   options (mainBatch s') = options (mainBatch s) \<Longrightarrow>
   constructed params s \<Longrightarrow> constructed params s'"
  by (auto simp: constructed_def Outbox_new_def BatchManager_new_def Let_def
           split: option.splits)

lemma submitAttach_unfold:
  "submitAttach params message s =
     (let s1 = s\<lparr>attachFlowBatch := snd (push (attachFlowBatch s) message)\<rparr>
      in if fst (push (attachFlowBatch s) message) then flushAttachIfLarge params s1
         else (case flushInternal params (fst (popAttachFlowBatch s1))
                      (snd (popAttachFlowBatch s1)) of
                 (Some e, s3) \<Rightarrow> (Some e, s3)
               | (None, s3) \<Rightarrow>
                   (let s4 = s3\<lparr>attachFlowBatch := snd (push (attachFlowBatch s3) message)\<rparr>
                    in if fst (push (attachFlowBatch s3) message)
                       then flushAttachIfLarge params s4
                       else (Some (GenericError ''BatchTooLarge''
                               [(''opSize'', PNum (enat (opSize message))),
                                (''batchSize'',
                                   PNum (enat (bm_contentSizeInBytes (attachFlowBatch s4)))),
                                (''count'', PNum (enat (bm_length (attachFlowBatch s4)))),
                                (''limit'', PNum (hardLimit (options (attachFlowBatch s4))))]),
                             s4))))"
  by (simp add: submitAttach_def Let_def split: prod.splits option.splits)

lemma flushInternal_disabled:
  assumes "compressionOptions (config params) = Some co" and "\<not> isCompressionEnabled co"
  shows "flushInternal params batch s =
           (None, persistBatch (content batch) (sendBatch params batch s))"
  using assms by (simp add: flushInternal_def compressBatch_def isCompressionEnabled_def)

lemma same_attachFlowBatch [simp]: "s\<lparr>attachFlowBatch := attachFlowBatch s\<rparr> = s"
  by simp

lemma flushInternal_options [simp]:
  "options (attachFlowBatch (snd (flushInternal params batch s))) = options (attachFlowBatch s)"
  "options (mainBatch (snd (flushInternal params batch s))) = options (mainBatch s)"
  by simp_all

lemma flush_options [simp]:
  "options (attachFlowBatch (snd (flush params s))) = options (attachFlowBatch s)"
  "options (mainBatch (snd (flush params s))) = options (mainBatch s)"
proof -
  obtain rA s1 where a: "flushInternal params (fst (popAttachFlowBatch s))
      (snd (popAttachFlowBatch s)) = (rA, s1)"
    by (cases "flushInternal params (fst (popAttachFlowBatch s)) (snd (popAttachFlowBatch s))")
  have o1: "options (attachFlowBatch s1) = options (attachFlowBatch s)"
    "options (mainBatch s1) = options (mainBatch s)"
    using flushInternal_options [of params "fst (popAttachFlowBatch s)" "snd (popAttachFlowBatch s)"]
      a by simp_all
  show "options (attachFlowBatch (snd (flush params s))) = options (attachFlowBatch s)"
    "options (mainBatch (snd (flush params s))) = options (mainBatch s)"
    by (cases rA; simp add: flush_unfold a o1)+
qed

lemma submit_options [simp]:
  "options (attachFlowBatch (snd (submit params message s))) = options (attachFlowBatch s)"
  "options (mainBatch (snd (submit params message s))) = options (mainBatch s)"
  by (simp_all add: submit_def Let_def split: prod.splits) (simp_all add: push_def)

lemma flushAttachIfLarge_options [simp]:
  "options (attachFlowBatch (snd (flushAttachIfLarge params s))) = options (attachFlowBatch s)"
  "options (mainBatch (snd (flushAttachIfLarge params s))) = options (mainBatch s)"
  by (simp_all add: flushAttachIfLarge_def split: option.splits prod.splits)
     (simp_all add: popAttachFlowBatch_def popBatch_def)

lemma submitAttach_options [simp]:
  "options (attachFlowBatch (snd (submitAttach params message s))) = options (attachFlowBatch s)"
  "options (mainBatch (snd (submitAttach params message s))) = options (mainBatch s)"
proof -
  let ?s1 = "s\<lparr>attachFlowBatch := snd (push (attachFlowBatch s) message)\<rparr>"
  obtain r s3 where a: "flushInternal params (fst (popAttachFlowBatch ?s1))
      (snd (popAttachFlowBatch ?s1)) = (r, s3)"
    by (cases "flushInternal params (fst (popAttachFlowBatch ?s1)) (snd (popAttachFlowBatch ?s1))")
  have o3: "options (attachFlowBatch s3) = options (attachFlowBatch s)"
    "options (mainBatch s3) = options (mainBatch s)"
    using flushInternal_options [of params "fst (popAttachFlowBatch ?s1)" "snd (popAttachFlowBatch ?s1)"]
      a by simp_all
  show "options (attachFlowBatch (snd (submitAttach params message s))) = options (attachFlowBatch s)"
    "options (mainBatch (snd (submitAttach params message s))) = options (mainBatch s)"
    by (cases r; simp add: submitAttach_unfold Let_def a o3)+
qed

text \<open>The constructor establishes \<open>constructed\<close>, and every operation keeps it.\<close>

lemma constructed_invariant:
  "constructed params s \<Longrightarrow> constructed params (snd (submit params message s))"
  "constructed params s \<Longrightarrow> constructed params (snd (submitAttach params message s))"
  "constructed params s \<Longrightarrow> constructed params (snd (flush params s))"
  by (erule constructed_cong [rotated 2]; simp)+

text \<open>
  Claim C5. For every op passed to \<open>submitAttach\<close> of an outbox built by the
  constructor: if the first push into the attach batch manager fails, the accumulated
  attach batch is flushed once (popped, compressed, sent, appended to the ledger; this
  flush cannot throw, since a push fails only under a finite hard limit, which the
  constructor sets only when compression is disabled), and the push is retried once; if
  the retry fails too, \<open>BatchTooLarge\<close> is thrown with the size of the op, the current
  size and number of ops of the (now empty) attach batch and its hard limit, and nothing
  more happens. After a successful push, the first or the retried one, the attach batch
  is flushed before \<open>submitAttach\<close> returns if its size has reached
  \<open>minimumBatchSizeInBytes\<close>, and left pending otherwise.
\<close>

theorem submitAttach_retry:
  assumes "constructed params s"
    and "compressionOptions (config params) = Some co"
  shows
    "let eagerFlush = (\<lambda>s1.
           if minimumBatchSizeInBytes co \<le> enat (bm_contentSizeInBytes (attachFlowBatch s1))
           then flushInternal params (fst (popAttachFlowBatch s1)) (snd (popAttachFlowBatch s1))
           else (None, s1))
     in if fst (push (attachFlowBatch s) message)
        then submitAttach params message s =
               eagerFlush (s\<lparr>attachFlowBatch := snd (push (attachFlowBatch s) message)\<rparr>)
        else \<exists>s2.
               flushInternal params (fst (popAttachFlowBatch s)) (snd (popAttachFlowBatch s))
                 = (None, s2) \<and>
               pendingBatch (attachFlowBatch s2) = [] \<and>
               ledgerCalls (trace s2) =
                 ledgerCalls (trace s) @
                 map (onSubmitMessage (heap s2)) (pendingBatch (attachFlowBatch s)) \<and>
               submitAttach params message s =
                 (if fst (push (attachFlowBatch s2) message)
                  then eagerFlush
                         (s2\<lparr>attachFlowBatch := snd (push (attachFlowBatch s2) message)\<rparr>)
                  else (Some (GenericError ''BatchTooLarge''
                          [(''opSize'', PNum (enat (opSize message))),
                           (''batchSize'',
                              PNum (enat (bm_contentSizeInBytes (attachFlowBatch s2)))),
                           (''count'', PNum (enat (bm_length (attachFlowBatch s2)))),
                           (''limit'', PNum (hardLimit (options (attachFlowBatch s2))))]),
                        s2))"
proof (cases "fst (push (attachFlowBatch s) message)")
  case True
  then show ?thesis
    by (simp add: submitAttach_unfold flushAttachIfLarge_def assms(2) Let_def
          split: prod.splits)
next
  case False
  then have "hardLimit (options (attachFlowBatch s))
      < enat (bm_contentSizeInBytes (attachFlowBatch s) + opSize message)"
    by (simp add: push_def split: if_splits)
  then have "hardLimit (options (attachFlowBatch s)) \<noteq> \<infinity>"
    by (cases "hardLimit (options (attachFlowBatch s))") simp_all
  then have dis: "\<not> isCompressionEnabled co"
    using constructed_options(1) [OF assms] by (auto split: if_splits)
  let ?raw = "fst (popAttachFlowBatch s)" and ?sA = "snd (popAttachFlowBatch s)"
  define s2 where "s2 = persistBatch (content ?raw) (sendBatch params ?raw ?sA)"
  have fl: "flushInternal params ?raw ?sA = (None, s2)"
    unfolding s2_def by (rule flushInternal_disabled [OF assms(2) dis])
  have empty: "pendingBatch (attachFlowBatch s2) = []"
    by (simp add: s2_def)
  have led: "ledgerCalls (trace s2) =
                 ledgerCalls (trace s) @
                 map (onSubmitMessage (heap s2)) (pendingBatch (attachFlowBatch s))"
    by (simp add: s2_def persistBatch_trace)
  have same: "snd (push (attachFlowBatch s) message) = attachFlowBatch s"
    using False by (rule push_failure_unchanged)
  have sub: "submitAttach params message s =
                 (if fst (push (attachFlowBatch s2) message)
                  then flushAttachIfLarge params
                         (s2\<lparr>attachFlowBatch := snd (push (attachFlowBatch s2) message)\<rparr>)
                  else (Some (GenericError ''BatchTooLarge''
                          [(''opSize'', PNum (enat (opSize message))),
                           (''batchSize'',
                              PNum (enat (bm_contentSizeInBytes (attachFlowBatch s2)))),
                           (''count'', PNum (enat (bm_length (attachFlowBatch s2)))),
                           (''limit'', PNum (hardLimit (options (attachFlowBatch s2))))]),
                        s2))"
    using False
    by (simp add: submitAttach_unfold same fl Let_def push_failure_unchanged)
  show ?thesis
    using False fl empty led sub
    by (simp add: Let_def flushAttachIfLarge_def assms(2) split: prod.splits)
qed

text \<open>
  A hard limit of 5 bytes with 3 bytes pending: an op of 3 bytes flushes the pending op and
  is queued; an op of 8 bytes flushes the pending op and is refused. With a threshold of 4
  bytes and 2 bytes pending, an op of 2 bytes is pushed and the two ops are flushed.
\<close>

theorem submitAttach_retry_witness:
  "constructed (ex_params \<infinity> 5 0 False True True) (ex_outbox 5 65536 [ex_op ''abc'' None] []) \<and>
   fst (push (attachFlowBatch (ex_outbox 5 65536 [ex_op ''abc'' None] [])) (ex_op ''def'' None))
     = False \<and>
   submitAttach (ex_params \<infinity> 5 0 False True True) (ex_op ''def'' None)
       (ex_outbox 5 65536 [ex_op ''abc'' None] [])
     = (None,
        (ex_outbox 5 65536 [ex_op ''def'' None] [])
          \<lparr>trace := [SubmitBatchFn [\<lparr>bm_contents = Some ''abc'', bm_metadata = None,
                                      bm_compression = None\<rparr>],
                      OnSubmitMessage ''component'' 7 (JStr ''abc'') (JStr ''abc'') None]\<rparr>) \<and>
   submitAttach (ex_params \<infinity> 5 0 False True True) (ex_op ''abcdefgh'' None)
       (ex_outbox 5 65536 [ex_op ''abc'' None] [])
     = (Some (GenericError ''BatchTooLarge''
                [(''opSize'', PNum 8), (''batchSize'', PNum 0), (''count'', PNum 0),
                 (''limit'', PNum 5)]),
        (ex_outbox 5 65536 [] [])
          \<lparr>trace := [SubmitBatchFn [\<lparr>bm_contents = Some ''abc'', bm_metadata = None,
                                      bm_compression = None\<rparr>],
                      OnSubmitMessage ''component'' 7 (JStr ''abc'') (JStr ''abc'') None]\<rparr>) \<and>
   constructed (ex_params 4 100 2 False True True) (ex_outbox \<infinity> \<infinity> [ex_op ''ab'' None] []) \<and>
   fst (push (attachFlowBatch (ex_outbox \<infinity> \<infinity> [ex_op ''ab'' None] [])) (ex_op ''cd'' None)) \<and>
   submitAttach (ex_params 4 100 2 False True True) (ex_op ''cd'' None)
       (ex_outbox \<infinity> \<infinity> [ex_op ''ab'' None] [])
     = flushInternal (ex_params 4 100 2 False True True)
         (ex_batch [ex_op ''ab'' None, ex_op ''cd'' None]) (ex_outbox \<infinity> \<infinity> [] [])"
proof -
  let ?P = "ex_params \<infinity> 5 0 False True True"
  let ?co = "\<lparr>minimumBatchSizeInBytes = \<infinity>, compressionAlgorithm = ''lz4''\<rparr>"
  let ?s = "ex_outbox 5 65536 [ex_op ''abc'' None] []"
  let ?t = "[SubmitBatchFn [\<lparr>bm_contents = Some ''abc'', bm_metadata = None,
                                      bm_compression = None\<rparr>],
                      OnSubmitMessage ''component'' 7 (JStr ''abc'') (JStr ''abc'') None]"
  let ?s2 = "(ex_outbox 5 65536 [] [])\<lparr>trace := ?t\<rparr>"
  have c: "constructed ?P ?s"
    by (simp add: constructed_def Outbox_new_def BatchManager_new_def isCompressionEnabled_def
          defaultAttachFlowSoftLimitInBytes_def ex_params_def ex_outbox_def numeral_eq_enat
          Let_def)
  have co: "compressionOptions (config ?P) = Some ?co"
    by (simp add: ex_params_def)
  have fl: "flushInternal ?P (fst (popAttachFlowBatch ?s)) (snd (popAttachFlowBatch ?s))
      = (None, ?s2)"
    by (simp add: flushInternal_def compressBatch_def popAttachFlowBatch_def popBatch_def
          sendBatch_def toIBatchMessage_def onSubmitMessage_def seen_def record_call_def
          ex_params_def ex_outbox_def ex_op_def)
  have p1: "fst (push (attachFlowBatch ?s) (ex_op ''def'' None)) = False"
    by (simp add: push_def bm_contentSizeInBytes_def ex_outbox_def ex_op_def opSize_def
          numeral_eq_enat)
  have p2: "fst (push (attachFlowBatch ?s) (ex_op ''abcdefgh'' None)) = False"
    by (simp add: push_def bm_contentSizeInBytes_def ex_outbox_def ex_op_def opSize_def
          numeral_eq_enat)
  have r1: "submitAttach ?P (ex_op ''def'' None) ?s
     = (None, (ex_outbox 5 65536 [ex_op ''def'' None] [])\<lparr>trace := ?t\<rparr>)"
    using submitAttach_retry [OF c co, of "ex_op ''def'' None"] p1 fl
    by (simp add: Let_def push_def bm_contentSizeInBytes_def bm_length_def opSize_def
          ex_outbox_def ex_op_def numeral_eq_enat)
  have r2: "submitAttach ?P (ex_op ''abcdefgh'' None) ?s
     = (Some (GenericError ''BatchTooLarge''
                [(''opSize'', PNum 8), (''batchSize'', PNum 0), (''count'', PNum 0),
                 (''limit'', PNum 5)]), ?s2)"
    using submitAttach_retry [OF c co, of "ex_op ''abcdefgh'' None"] p2 fl
    by (simp add: Let_def push_def bm_contentSizeInBytes_def bm_length_def opSize_def
          ex_outbox_def ex_op_def numeral_eq_enat zero_enat_def)
  let ?Q = "ex_params 4 100 2 False True True"
  let ?co' = "\<lparr>minimumBatchSizeInBytes = 4, compressionAlgorithm = ''lz4''\<rparr>"
  let ?u = "ex_outbox \<infinity> \<infinity> [ex_op ''ab'' None] []"
  have c': "constructed ?Q ?u"
    by (simp add: constructed_def Outbox_new_def BatchManager_new_def isCompressionEnabled_def
          defaultAttachFlowSoftLimitInBytes_def ex_params_def ex_outbox_def numeral_eq_enat
          Let_def)
  have co': "compressionOptions (config ?Q) = Some ?co'"
    by (simp add: ex_params_def)
  have p3: "fst (push (attachFlowBatch ?u) (ex_op ''cd'' None))"
    by (simp add: push_def ex_outbox_def)
  have r3: "submitAttach ?Q (ex_op ''cd'' None) ?u
     = flushInternal ?Q (ex_batch [ex_op ''ab'' None, ex_op ''cd'' None]) (ex_outbox \<infinity> \<infinity> [] [])"
    using submitAttach_retry [OF c' co', of "ex_op ''cd'' None"] p3
    by (simp add: Let_def push_def bm_contentSizeInBytes_def popAttachFlowBatch_def popBatch_def
          opSize_def ex_outbox_def ex_op_def ex_batch_def numeral_eq_enat)
  show ?thesis
    using c p1 r1 r2 c' p3 r3 by simp
qed

end
